theory Spec2Isabelle
  imports Complex_Main
begin

section \<open>Quartz Vulkan renderer: frame scheduler, ring of frame resources, job graph\<close>

text \<open>
  A shallow embedding of \<^verbatim>\<open>src/raytrace/renderers/vulkan/renderer.cpp\<close>.
  The renderer object is a record of its member variables; every member function is a
  function on that record.  What the Vulkan device, the Qt3D job classes and the node
  managers answer is not part of the file: it is passed in as an environment record, one
  field per call whose answer the code looks at.
\<close>

subsection \<open>Dirty flags\<close>

text \<open>
  \<^verbatim>\<open>DirtySet\<close> is a set of \<^verbatim>\<open>DirtyFlag\<close> bits.  The enumeration is declared
  in a header; the file only uses the seven names below and \<^verbatim>\<open>NoneDirty\<close>.  The bit
  values play no role: \<^verbatim>\<open>a |= b\<close> is union, \<^verbatim>\<open>a & Flag\<close> tests membership and
  \<^verbatim>\<open>NoneDirty\<close> is the empty set.
\<close>

datatype DirtyFlag =
    EntityDirty
  | TransformDirty
  | GeometryDirty
  | TextureDirty
  | MaterialDirty
  | LightDirty
  | CameraDirty

type_synonym DirtySet = "DirtyFlag set"

definition NoneDirty :: DirtySet where
  "NoneDirty = {}"

subsection \<open>Jobs\<close>

type_synonym QNodeId = nat
type_synonym Handle = nat

text \<open>
  The five jobs the constructor allocates once live as long as the renderer; the other
  four kinds are allocated by \<^verbatim>\<open>jobsToExecute\<close> in every pass.  An allocation is told
  apart from every other one by a serial number (the object's identity); what
  \<^verbatim>\<open>setDirtyMaterialHandles\<close> stores in a material job is part of its value.
\<close>

datatype Job =
    DestroyExpiredResourcesJob
  | UpdateWorldTransformJob
  | UpdateRenderParametersJob
  | UpdateInstanceBufferJob
  | UpdateEmittersJob
  | BuildGeometryJob nat Handle
  | UploadTextureJob nat Handle
  | UpdateMaterialsJob nat "Handle list"
  | BuildSceneTopLevelAccelerationStructureJob nat

fun isUploadTextureJob :: "Job \<Rightarrow> bool" where
  "isUploadTextureJob (UploadTextureJob n h) = True"
| "isUploadTextureJob j = False"

fun isUpdateMaterialsJob :: "Job \<Rightarrow> bool" where
  "isUpdateMaterialsJob (UpdateMaterialsJob n hs) = True"
| "isUpdateMaterialsJob j = False"

text \<open>The three jobs that line 1136 onwards schedules only when there is something to render.\<close>

fun isSceneJob :: "Job \<Rightarrow> bool" where
  "isSceneJob (BuildSceneTopLevelAccelerationStructureJob n) = True"
| "isSceneJob UpdateInstanceBufferJob = True"
| "isSceneJob UpdateEmittersJob = True"
| "isSceneJob j = False"

subsection \<open>Sizes\<close>

text \<open>
  \<^verbatim>\<open>QSize\<close>: the default-constructed size is \<open>(-1, -1)\<close>; it is valid when both
  sides are at least 0 and null when both are 0.
\<close>

record QSize =
  width :: int
  height :: int

definition QSize_default :: QSize where
  "QSize_default = \<lparr>width = - 1, height = - 1\<rparr>"

definition isValid :: "QSize \<Rightarrow> bool" where
  "isValid sz \<longleftrightarrow> 0 \<le> width sz \<and> 0 \<le> height sz"

definition isNull :: "QSize \<Rightarrow> bool" where
  "isNull sz \<longleftrightarrow> width sz = 0 \<and> height sz = 0"

subsection \<open>Image formats\<close>

text \<open>
  The five formats \<^verbatim>\<open>grabImage\<close> has a case for, and one that stands for the formats
  a surface may report and the \<^verbatim>\<open>switch\<close> has no case for.
\<close>

datatype VkFormat =
    VK_FORMAT_R8G8B8A8_SRGB
  | VK_FORMAT_R8G8B8A8_UNORM
  | VK_FORMAT_B8G8R8A8_SRGB
  | VK_FORMAT_B8G8R8A8_UNORM
  | VK_FORMAT_R32G32B32A32_SFLOAT
  | VK_FORMAT_A2B10G10R10_UNORM_PACK32


subsection \<open>The renderer\<close>

text \<open>
  An image handle is \<open>None\<close> when it is null.  The three bindings of a frame's two
  descriptor sets that \<^verbatim>\<open>createRenderBufferResources\<close> writes are kept with the frame.
\<close>

type_synonym Image = "nat option"

record FrameResources =
  renderBuffer :: Image
  displayBufferBinding :: Image
  renderBufferBinding :: Image
  prevRenderBufferBinding :: Image

text \<open>
  The members the functions below read or write.  \<^verbatim>\<open>m_window\<close> and \<^verbatim>\<open>m_swapchain\<close>
  say whether the pointer or handle is set, \<^verbatim>\<open>m_frameElapsedTimer\<close> whether the timer
  is valid.  \<^verbatim>\<open>m_lastRenderBuffer\<close> points into \<^verbatim>\<open>m_frameResources\<close> and
  \<^verbatim>\<open>m_lastSwapchainImage\<close> into \<^verbatim>\<open>m_swapchainAttachments\<close>: each is the index of
  the element pointed to, or \<open>None\<close> for \<^verbatim>\<open>nullptr\<close>.  A running average is the list
  of the samples added to it, oldest first.

  Four fields hold what the renderer reaches through its collaborators:
  \<^verbatim>\<open>m_renderables\<close> is \<^verbatim>\<open>m_sceneManager->renderables()\<close>, \<^verbatim>\<open>m_activeCamera\<close> the
  camera of \<^verbatim>\<open>m_cameraManager\<close>, \<^verbatim>\<open>m_dependencies\<close> the dependency list of every
  job object, and \<^verbatim>\<open>m_jobSerial\<close> the number of job objects allocated so far.
\<close>

record Renderer =
  m_window :: bool
  m_swapchain :: bool
  m_swapchainFormat :: VkFormat
  m_swapchainSize :: QSize
  m_renderBufferSize :: QSize
  m_swapchainAttachments :: "nat list"
  m_lastSwapchainImage :: "nat option"
  m_lastRenderBuffer :: "int option"
  m_renderBuffersReady :: bool
  m_clearPreviousRenderBuffer :: bool
  m_frameNumber :: nat
  m_frameElapsedTimer :: bool
  m_frameIndex :: int
  m_frameResources :: "FrameResources list"
  m_hostTimeAverage :: "real list"
  m_deviceTimeAverage :: "real list"
  m_dirtySet :: DirtySet
  m_renderables :: "nat list"
  m_activeCamera :: "nat option"
  m_dependencies :: "Job \<Rightarrow> Job list"
  m_jobSerial :: nat

definition numConcurrentFrames :: "Renderer \<Rightarrow> nat" where
  "numConcurrentFrames s = length (m_frameResources s)"

definition currentFrameIndex :: "Renderer \<Rightarrow> int" where
  "currentFrameIndex s = m_frameIndex s"

definition previousFrameIndex :: "Renderer \<Rightarrow> int" where
  "previousFrameIndex s =
     (if m_frameIndex s > 0 then m_frameIndex s - 1 else int (numConcurrentFrames s) - 1)"

definition resetRenderProgress :: "Renderer \<Rightarrow> Renderer" where
  "resetRenderProgress s =
     s\<lparr>m_clearPreviousRenderBuffer := True, m_frameNumber := 0, m_frameElapsedTimer := True\<rparr>"

definition markDirty :: "DirtySet \<Rightarrow> Renderer \<Rightarrow> Renderer" where
  "markDirty changes s = s\<lparr>m_dirtySet := m_dirtySet s \<union> changes\<rparr>"

subsection \<open>Job dependencies\<close>

text \<open>
  \<^verbatim>\<open>QAspectJob\<close> keeps weak pointers.  \<^verbatim>\<open>addDependency\<close> appends one;
  \<^verbatim>\<open>removeDependency\<close> with a job removes every pointer to it, and with a null pointer
  removes the pointers that have expired.  Which jobs have been freed since the last pass
  is the engine's business and comes with the environment.
\<close>

definition addDependency :: "Job \<Rightarrow> Job \<Rightarrow> Renderer \<Rightarrow> Renderer" where
  "addDependency j d s = s\<lparr>m_dependencies := (m_dependencies s)(j := m_dependencies s j @ [d])\<rparr>"

definition removeDependency :: "(Job \<Rightarrow> bool) \<Rightarrow> Job \<Rightarrow> Job option \<Rightarrow> Renderer \<Rightarrow> Renderer" where
  "removeDependency expired j d s =
     (case d of
        Some d' \<Rightarrow> s\<lparr>m_dependencies := (m_dependencies s)(j := removeAll d' (m_dependencies s j))\<rparr>
      | None \<Rightarrow> s\<lparr>m_dependencies :=
                    (m_dependencies s)(j := filter (\<lambda>x. \<not> expired x) (m_dependencies s j))\<rparr>)"

fun addDependencies :: "Job \<Rightarrow> Job list \<Rightarrow> Renderer \<Rightarrow> Renderer" where
  "addDependencies j [] s = s"
| "addDependencies j (d # ds) s = addDependencies j ds (addDependency j d s)"

text \<open>A job that has just been allocated has no dependency.\<close>

definition allocated :: "Job \<Rightarrow> Renderer \<Rightarrow> Renderer" where
  "allocated j s = s\<lparr>m_dependencies := (m_dependencies s)(j := []), m_jobSerial := Suc (m_jobSerial s)\<rparr>"

subsection \<open>What the node managers and the scene manager answer during one pass\<close>

text \<open>
  For each of the three managers the node ids that \<^verbatim>\<open>acquireDirtyComponents\<close> hands
  out and the handle \<^verbatim>\<open>lookupHandle\<close> finds for an id (\<open>None\<close> for a null handle);
  the active material handles; the jobs whose weak pointers have expired; the camera
  entity that \<^verbatim>\<open>updateActiveCamera\<close> resolves from the settings (\<open>None\<close> without
  settings, without such an entity, or when the entity is no camera); and the renderables
  that \<^verbatim>\<open>gatherEntities\<close> finds.
\<close>

record JobsEnv =
  geometryDirtyComponents :: "QNodeId list"
  geometryLookupHandle :: "QNodeId \<Rightarrow> Handle option"
  textureImageDirtyComponents :: "QNodeId list"
  textureImageLookupHandle :: "QNodeId \<Rightarrow> Handle option"
  materialDirtyComponents :: "QNodeId list"
  materialLookupHandle :: "QNodeId \<Rightarrow> Handle option"
  materialActiveHandles :: "Handle list"
  expiredJob :: "Job \<Rightarrow> bool"
  settingsCamera :: "nat option"
  gatheredRenderables :: "nat list"

subsection \<open>createGeometryJobs, createTextureJobs, createMaterialJobs\<close>

text \<open>The loop over the dirty node ids: an id whose handle is null gets no job.\<close>

fun buildGeometryJobs :: "(QNodeId \<Rightarrow> Handle option) \<Rightarrow> QNodeId list \<Rightarrow> Renderer \<Rightarrow> Job list \<times> Renderer" where
  "buildGeometryJobs lookup [] s = ([], s)"
| "buildGeometryJobs lookup (geometryId # ids) s =
     (case lookup geometryId of
        None \<Rightarrow> buildGeometryJobs lookup ids s
      | Some handle \<Rightarrow>
          (let job = BuildGeometryJob (m_jobSerial s) handle;
               (rest, s') = buildGeometryJobs lookup ids (allocated job s)
           in (job # rest, s')))"

definition createGeometryJobs :: "JobsEnv \<Rightarrow> Renderer \<Rightarrow> Job list \<times> Renderer" where
  "createGeometryJobs env s =
     (let dirtyGeometry = geometryDirtyComponents env;
          (buildJobs, s') = buildGeometryJobs (geometryLookupHandle env) dirtyGeometry s
      in ([] @ buildJobs, s'))"

fun uploadTextureJobs :: "(QNodeId \<Rightarrow> Handle option) \<Rightarrow> QNodeId list \<Rightarrow> Renderer \<Rightarrow> Job list \<times> Renderer" where
  "uploadTextureJobs lookup [] s = ([], s)"
| "uploadTextureJobs lookup (textureImageId # ids) s =
     (case lookup textureImageId of
        None \<Rightarrow> uploadTextureJobs lookup ids s
      | Some handle \<Rightarrow>
          (let job = UploadTextureJob (m_jobSerial s) handle;
               (rest, s') = uploadTextureJobs lookup ids (allocated job s)
           in (job # rest, s')))"

definition createTextureJobs :: "JobsEnv \<Rightarrow> Renderer \<Rightarrow> Job list \<times> Renderer" where
  "createTextureJobs env s =
     (let dirtyTextureImages = textureImageDirtyComponents env;
          (uploadJobs, s') = uploadTextureJobs (textureImageLookupHandle env) dirtyTextureImages s
      in ([] @ uploadJobs, s'))"

fun resolvedHandles :: "(QNodeId \<Rightarrow> Handle option) \<Rightarrow> QNodeId list \<Rightarrow> Handle list" where
  "resolvedHandles lookup [] = []"
| "resolvedHandles lookup (materialId # ids) =
     (case lookup materialId of
        None \<Rightarrow> resolvedHandles lookup ids
      | Some handle \<Rightarrow> handle # resolvedHandles lookup ids)"

definition createMaterialJobs :: "JobsEnv \<Rightarrow> bool \<Rightarrow> Renderer \<Rightarrow> Job list \<times> Renderer" where
  "createMaterialJobs env forceAllDirty s =
     (let dirtyMaterialHandles =
            (if forceAllDirty then materialActiveHandles env
             else resolvedHandles (materialLookupHandle env) (materialDirtyComponents env));
          updateMaterialsJob = UpdateMaterialsJob (m_jobSerial s) dirtyMaterialHandles
      in ([updateMaterialsJob], allocated updateMaterialsJob s))"

definition updateActiveCamera :: "JobsEnv \<Rightarrow> Renderer \<Rightarrow> Renderer" where
  "updateActiveCamera env s =
     (case settingsCamera env of
        None \<Rightarrow> s
      | Some cameraEntity \<Rightarrow> s\<lparr>m_activeCamera := Some cameraEntity\<rparr>)"

subsection \<open>jobsToExecute\<close>

text \<open>The local variables of \<^verbatim>\<open>jobsToExecute\<close>.\<close>

record JobLocals =
  jobs :: "Job list"
  shouldUpdateRenderParameters :: bool
  shouldUpdateInstanceBuffer :: bool
  shouldUpdateEmitters :: bool
  shouldUpdateTLAS :: bool
  sceneEntitiesDirty :: bool
  geometryJobs :: "Job list"
  textureJobs :: "Job list"
  materialJobs :: "Job list"

definition initialLocals :: JobLocals where
  "initialLocals =
     \<lparr>jobs = [], shouldUpdateRenderParameters = False, shouldUpdateInstanceBuffer = False,
      shouldUpdateEmitters = False, shouldUpdateTLAS = False, sceneEntitiesDirty = False,
      geometryJobs = [], textureJobs = [], materialJobs = []\<rparr>"

text \<open>Lines 1056 to 1068: stale dependencies go, the reclaim job is always first.\<close>

definition jobsPrologue :: "JobsEnv \<Rightarrow> Renderer \<Rightarrow> JobLocals \<times> Renderer" where
  "jobsPrologue env s =
     (let l = initialLocals;
          s = removeDependency (expiredJob env) UpdateRenderParametersJob (Some UpdateWorldTransformJob) s;
          s = removeDependency (expiredJob env) UpdateInstanceBufferJob (Some UpdateWorldTransformJob) s;
          s = removeDependency (expiredJob env) UpdateInstanceBufferJob None s;
          s = removeDependency (expiredJob env) UpdateEmittersJob (Some UpdateWorldTransformJob) s;
          s = removeDependency (expiredJob env) UpdateEmittersJob None s;
          l = l\<lparr>jobs := jobs l @ [DestroyExpiredResourcesJob]\<rparr>;
          s = (if m_dirtySet s \<noteq> NoneDirty then resetRenderProgress s else s)
      in (l, s))"

text \<open>Lines 1070 to 1090: entity, geometry, light and transform flags.\<close>

definition jobsSceneFlags :: "JobLocals \<times> Renderer \<Rightarrow> JobLocals \<times> Renderer" where
  "jobsSceneFlags = (\<lambda>(l, s).
     (let l = (if EntityDirty \<in> m_dirtySet s \<or> GeometryDirty \<in> m_dirtySet s
               then l\<lparr>shouldUpdateInstanceBuffer := True, shouldUpdateEmitters := True,
                      shouldUpdateTLAS := True, sceneEntitiesDirty := True\<rparr>
               else l);
          l = (if LightDirty \<in> m_dirtySet s
               then l\<lparr>shouldUpdateEmitters := True, sceneEntitiesDirty := True\<rparr>
               else l)
      in if TransformDirty \<in> m_dirtySet s
         then (let l = l\<lparr>jobs := jobs l @ [UpdateWorldTransformJob]\<rparr>;
                   s = addDependency UpdateRenderParametersJob UpdateWorldTransformJob s;
                   s = addDependency UpdateInstanceBufferJob UpdateWorldTransformJob s;
                   s = addDependency UpdateEmittersJob UpdateWorldTransformJob s;
                   l = l\<lparr>shouldUpdateTLAS := True, shouldUpdateRenderParameters := True,
                          shouldUpdateInstanceBuffer := True, shouldUpdateEmitters := True\<rparr>
               in (l, s))
         else (l, s)))"

text \<open>Lines 1092 to 1106: geometry and texture jobs.\<close>

definition jobsGeometry :: "JobsEnv \<Rightarrow> JobLocals \<times> Renderer \<Rightarrow> JobLocals \<times> Renderer" where
  "jobsGeometry env = (\<lambda>(l, s).
     if GeometryDirty \<in> m_dirtySet s
     then (let (gs, s) = createGeometryJobs env s;
               l = l\<lparr>geometryJobs := gs\<rparr>;
               l = l\<lparr>jobs := jobs l @ geometryJobs l\<rparr>;
               l = l\<lparr>shouldUpdateTLAS := True, shouldUpdateInstanceBuffer := True,
                      shouldUpdateEmitters := True\<rparr>
           in (l, s))
     else (l, s))"

definition jobsTexture :: "JobsEnv \<Rightarrow> JobLocals \<times> Renderer \<Rightarrow> JobLocals \<times> Renderer" where
  "jobsTexture env = (\<lambda>(l, s).
     if TextureDirty \<in> m_dirtySet s
     then (let (ts, s) = createTextureJobs env s;
               l = l\<lparr>textureJobs := ts\<rparr>;
               l = l\<lparr>jobs := jobs l @ textureJobs l\<rparr>;
               l = l\<lparr>shouldUpdateEmitters := True\<rparr>
           in (l, s))
     else (l, s))"

text \<open>
  Lines 1108 to 1120: the material job, and the double loop that makes every material job
  depend on every texture job.
\<close>

fun addDependenciesAll :: "Job list \<Rightarrow> Job list \<Rightarrow> Renderer \<Rightarrow> Renderer" where
  "addDependenciesAll [] ds s = s"
| "addDependenciesAll (j # js) ds s = addDependenciesAll js ds (addDependencies j ds s)"

definition jobsMaterial :: "JobsEnv \<Rightarrow> JobLocals \<times> Renderer \<Rightarrow> JobLocals \<times> Renderer" where
  "jobsMaterial env = (\<lambda>(l, s).
     if MaterialDirty \<in> m_dirtySet s \<or> TextureDirty \<in> m_dirtySet s
     then (let forceUpdateAllMaterials = (TextureDirty \<in> m_dirtySet s);
               (ms, s) = createMaterialJobs env forceUpdateAllMaterials s;
               l = l\<lparr>materialJobs := ms\<rparr>;
               l = l\<lparr>jobs := jobs l @ materialJobs l\<rparr>;
               s = addDependenciesAll (materialJobs l) (textureJobs l) s;
               l = l\<lparr>shouldUpdateInstanceBuffer := True, shouldUpdateEmitters := True\<rparr>
           in (l, s))
     else (l, s))"

text \<open>Lines 1122 to 1135: camera, the reset of the dirty set, render parameters, gathering.\<close>

definition jobsCameraAndReset :: "JobsEnv \<Rightarrow> JobLocals \<times> Renderer \<Rightarrow> JobLocals \<times> Renderer" where
  "jobsCameraAndReset env = (\<lambda>(l, s).
     (let (l, s) = (if CameraDirty \<in> m_dirtySet s
                    then (l\<lparr>shouldUpdateRenderParameters := True\<rparr>, updateActiveCamera env s)
                    else (l, s));
          s = s\<lparr>m_dirtySet := NoneDirty\<rparr>;
          l = (if shouldUpdateRenderParameters l
               then l\<lparr>jobs := jobs l @ [UpdateRenderParametersJob]\<rparr> else l);
          s = (if sceneEntitiesDirty l then s\<lparr>m_renderables := gatheredRenderables env\<rparr> else s)
      in (l, s)))"




text \<open>Lines 1136 to 1170: nothing more without renderables; else the three scene jobs.\<close>

definition jobsScene :: "JobLocals \<times> Renderer \<Rightarrow> Job list \<times> Renderer" where
  "jobsScene = (\<lambda>(l, s).
     if length (m_renderables s) = 0 then (jobs l, s)
     else
       (let (l, s) =
              (if shouldUpdateTLAS l
               then (let buildSceneTLASJob = BuildSceneTopLevelAccelerationStructureJob (m_jobSerial s);
                         s = allocated buildSceneTLASJob s;
                         s = addDependency buildSceneTLASJob UpdateWorldTransformJob s;
                         s = addDependencies buildSceneTLASJob (geometryJobs l) s
                     in (l\<lparr>jobs := jobs l @ [buildSceneTLASJob]\<rparr>, s))
               else (l, s));
            (l, s) =
              (if shouldUpdateInstanceBuffer l
               then (let s = addDependencies UpdateInstanceBufferJob (geometryJobs l) s;
                         s = addDependencies UpdateInstanceBufferJob (materialJobs l) s
                     in (l\<lparr>jobs := jobs l @ [UpdateInstanceBufferJob]\<rparr>, s))
               else (l, s));
            (l, s) =
              (if shouldUpdateEmitters l
               then (let s = addDependencies UpdateEmittersJob (geometryJobs l) s;
                         s = addDependencies UpdateEmittersJob (materialJobs l) s;
                         s = addDependencies UpdateEmittersJob (textureJobs l) s
                     in (l\<lparr>jobs := jobs l @ [UpdateEmittersJob]\<rparr>, s))
               else (l, s))
        in (jobs l, s)))"

definition jobsToExecute :: "JobsEnv \<Rightarrow> Renderer \<Rightarrow> Job list \<times> Renderer" where
  "jobsToExecute env s =
     jobsScene (jobsCameraAndReset env (jobsMaterial env (jobsTexture env (jobsGeometry env
       (jobsSceneFlags (jobsPrologue env s))))))"

subsection \<open>Vulkan results\<close>

text \<open>
  The result codes the file tells apart.  \<^verbatim>\<open>VKFAILED\<close> and \<^verbatim>\<open>VKSUCCEEDED\<close> are macros
  of \<^verbatim>\<open>vkcommon.h\<close>; the file tests for \<^verbatim>\<open>VK_SUBOPTIMAL_KHR\<close>, a positive code, inside
  a \<^verbatim>\<open>VKFAILED\<close> branch, so a result fails when it is not \<^verbatim>\<open>VK_SUCCESS\<close>.
\<close>

datatype VkResult =
    VK_SUCCESS
  | VK_SUBOPTIMAL_KHR
  | VK_ERROR_OUT_OF_DATE_KHR
  | VK_ERROR_DEVICE_LOST

definition VKFAILED :: "VkResult \<Rightarrow> bool" where
  "VKFAILED x \<longleftrightarrow> x \<noteq> VK_SUCCESS"

definition VKSUCCEEDED :: "VkResult \<Rightarrow> bool" where
  "VKSUCCEEDED x \<longleftrightarrow> x = VK_SUCCESS"

subsection \<open>Commands and device calls\<close>

text \<open>
  What a frame does to the outside is a list of events, in the order of the calls.  A
  command recorded into the command buffer of a slot is an event too.  A render buffer is
  named by the slot it belongs to, a swapchain attachment by its image index, a timestamp
  query by its index in \<^verbatim>\<open>m_defaultQueryPool\<close>.
\<close>

datatype ImageState = Undefined | CopyDest | ShaderReadWrite | ShaderRead | CopySource | PresentSource

datatype PipelineStage = TopOfPipe | BottomOfPipe

datatype Pipeline = RenderPipeline | DisplayPipeline

datatype Command =
    CmdResetQueryPool int int
  | CmdWriteTimestamp PipelineStage int
  | CmdResourceBarrier "(int \<times> ImageState \<times> ImageState) list"
  | CmdClearColorImage int ImageState
  | CmdBindPipeline Pipeline
  | CmdBindDescriptorSets Pipeline int
  | CmdPushConstants Pipeline
  | CmdTraceRays int int
  | CmdBeginRenderPass nat
  | CmdSetViewport
  | CmdSetScissor
  | CmdDraw nat nat
  | CmdEndRenderPass

datatype Event =
    EvWaitIdle
  | EvWaitForFence int
  | EvResetFence int
  | EvUpdateRetiredResources
  | EvIsReadyToRender bool
  | EvWriteDescriptor int
  | EvWriteDescriptors int
  | EvSubmitCommandBuffers
  | EvBegin int
  | EvRecord int Command
  | EvAcquireNextImage VkResult
  | EvEnd int
  | EvQueueSubmit int VkResult
  | EvFrameIndex int
  | EvQueuePresent nat VkResult
  | EvPresentQueued
  | EvCommandBuffersProceed
  | EvFrameAdvanceProceed
  | EvQueryTimeElapsed int
  | EvUpdateFrameTimings real real

text \<open>
  What the device, the scene manager and the clock answer during one frame.  Times are
  \<^verbatim>\<open>double\<close> in the code; here they are reals, and the code only compares them with 0.
  \<^verbatim>\<open>queryTimeElapsed\<close> writes the elapsed time of a query pair when it has one and
  leaves its argument alone otherwise.
\<close>

record FrameEnv =
  querySwapchainSize :: "QSize option"
  createSwapchain :: bool
  getSwapchainImages :: "nat list option"
  createImage :: "nat \<Rightarrow> Image"
  isReadyToRender :: bool
  acquireNextImage :: "VkResult \<times> nat"
  queueSubmit :: VkResult
  queuePresent :: VkResult
  cpuFrameTime :: real
  queryTimeElapsed :: "int \<Rightarrow> real option"

subsection \<open>Swapchain and render buffer resources\<close>

definition createSwapchainResources :: "FrameEnv \<Rightarrow> QSize \<Rightarrow> Renderer \<Rightarrow> bool \<times> Renderer" where
  "createSwapchainResources env sz s =
     (case getSwapchainImages env of
        None \<Rightarrow> (False, s)
      | Some swapchainImages \<Rightarrow>
          (True, s\<lparr>m_swapchainAttachments := swapchainImages, m_swapchainSize := sz\<rparr>))"

definition releaseSwapchainResources :: "Renderer \<Rightarrow> Renderer" where
  "releaseSwapchainResources s =
     s\<lparr>m_swapchainAttachments := [], m_lastSwapchainImage := None, m_swapchainSize := QSize_default\<rparr>"

text \<open>
  The first loop of \<^verbatim>\<open>createRenderBufferResources\<close>: one image per frame, and the
  function gives up at the first image the device does not create.
\<close>

fun createRenderBuffers :: "(nat \<Rightarrow> Image) \<Rightarrow> nat \<Rightarrow> FrameResources list \<Rightarrow> bool \<times> FrameResources list" where
  "createRenderBuffers dev i [] = (True, [])"
| "createRenderBuffers dev i (frame # frames) =
     (case dev i of
        None \<Rightarrow> (False, frame\<lparr>renderBuffer := None\<rparr> # frames)
      | Some img \<Rightarrow>
          (let (ok, rest) = createRenderBuffers dev (Suc i) frames
           in (ok, frame\<lparr>renderBuffer := Some img\<rparr> # rest)))"

text \<open>
  The second loop: \<^verbatim>\<open>previousFrame\<close> starts at the last frame and follows the loop
  one step behind.  The pointer is the index \<open>p\<close>.
\<close>

definition writeFrameDescriptors :: "nat \<Rightarrow> nat \<times> FrameResources list \<Rightarrow> nat \<times> FrameResources list" where
  "writeFrameDescriptors i = (\<lambda>(p, frames).
     (i, frames[i := (frames ! i)
          \<lparr>displayBufferBinding := renderBuffer (frames ! i),
           renderBufferBinding := renderBuffer (frames ! i),
           prevRenderBufferBinding := renderBuffer (frames ! p)\<rparr>]))"

definition writeAllFrameDescriptors :: "FrameResources list \<Rightarrow> FrameResources list" where
  "writeAllFrameDescriptors frames =
     snd (fold writeFrameDescriptors [0..<length frames] (length frames - 1, frames))"

definition createRenderBufferResources :: "FrameEnv \<Rightarrow> QSize \<Rightarrow> Renderer \<Rightarrow> bool \<times> Renderer" where
  "createRenderBufferResources env sz s =
     (let (ok, frames) = createRenderBuffers (createImage env) 0 (m_frameResources s)
      in if \<not> ok then (False, s\<lparr>m_frameResources := frames\<rparr>)
         else (True, resetRenderProgress
                 (s\<lparr>m_frameResources := writeAllFrameDescriptors frames, m_renderBufferSize := sz\<rparr>)))"

definition releaseRenderBufferResources :: "Renderer \<Rightarrow> Renderer" where
  "releaseRenderBufferResources s =
     s\<lparr>m_frameResources := map (\<lambda>frame. frame\<lparr>renderBuffer := None\<rparr>) (m_frameResources s),
       m_renderBufferSize := QSize_default, m_renderBuffersReady := False, m_lastRenderBuffer := None\<rparr>"

subsection \<open>resizeSwapchain\<close>

text \<open>
  \<^verbatim>\<open>Device::destroySwapchain\<close> and \<^verbatim>\<open>Device::destroyImage\<close> take the handle by
  reference; the handle is taken to be null afterwards.  No property below depends on it.
  Of the device calls of a resize only \<^verbatim>\<open>waitIdle\<close> is kept as an event.
\<close>

definition resizeSwapchain :: "FrameEnv \<Rightarrow> Renderer \<Rightarrow> Event list \<times> Renderer" where
  "resizeSwapchain env s =
     (case querySwapchainSize env of
        None \<Rightarrow> ([], s)
      | Some currentSwapchainSize \<Rightarrow>
          if currentSwapchainSize \<noteq> m_swapchainSize s
          then (let s = (if m_swapchain s then releaseSwapchainResources s else s)
                in if \<not> isNull currentSwapchainSize
                   then (if createSwapchain env
                         then (let s = s\<lparr>m_swapchain := True\<rparr>;
                                   s = snd (createSwapchainResources env currentSwapchainSize s)
                               in if m_swapchainSize s \<noteq> m_renderBufferSize s
                                  then ([EvWaitIdle],
                                        snd (createRenderBufferResources env (m_swapchainSize s)
                                               (releaseRenderBufferResources s)))
                                  else ([EvWaitIdle], s))
                         else ([EvWaitIdle], s))
                   else ([EvWaitIdle], s\<lparr>m_swapchain := False\<rparr>))
          else ([], s))"

subsection \<open>Per-frame helpers\<close>

text \<open>
  The operator \<^verbatim>\<open>%\<close> of C++ on \<^verbatim>\<open>int\<close>: the result has the sign of the left
  operand.  Both operands are small here (a slot index plus one, and the number of slots),
  so the 32-bit range plays no role.
\<close>

definition c_rem :: "int \<Rightarrow> int \<Rightarrow> int" where
  "c_rem a b = (if 0 \<le> a then \<bar>a\<bar> mod \<bar>b\<bar> else - (\<bar>a\<bar> mod \<bar>b\<bar>))"

definition beginRenderIteration :: "Renderer \<Rightarrow> Renderer" where
  "beginRenderIteration s = s\<lparr>m_frameNumber := m_frameNumber s + 1\<rparr>"

text \<open>
  \<^verbatim>\<open>acquireNextSwapchainImage\<close>: the events, whether it succeeded, and the image index
  (the driver writes it when it hands out an image; it keeps its value otherwise).
\<close>

definition acquireNextSwapchainImage :: "FrameEnv \<Rightarrow> nat \<Rightarrow> Event list \<times> bool \<times> nat" where
  "acquireNextSwapchainImage env imageIndex =
     (let (result, acquired) = acquireNextImage env
      in if VKFAILED result
         then (if result \<noteq> VK_SUBOPTIMAL_KHR
               then ([EvAcquireNextImage result], False, imageIndex)
               else ([EvAcquireNextImage result], True, acquired))
         else ([EvAcquireNextImage result], True, acquired))"

definition presentSwapchainImage :: "FrameEnv \<Rightarrow> nat \<Rightarrow> Event list \<times> bool" where
  "presentSwapchainImage env imageIndex =
     (let result = queuePresent env
      in if VKSUCCEEDED result \<or> result = VK_SUBOPTIMAL_KHR
         then ([EvQueuePresent imageIndex result, EvPresentQueued], True)
         else if result \<noteq> VK_ERROR_OUT_OF_DATE_KHR
         then ([EvQueuePresent imageIndex result], False)
         else ([EvQueuePresent imageIndex result], True))"

definition submitFrameCommands :: "FrameEnv \<Rightarrow> Renderer \<Rightarrow> Event list \<times> bool \<times> Renderer" where
  "submitFrameCommands env s =
     (let result = queueSubmit env
      in if VKFAILED result
         then ([EvQueueSubmit (m_frameIndex s) result], False, s)
         else (let s' = s\<lparr>m_frameIndex := c_rem (m_frameIndex s + 1) (int (numConcurrentFrames s))\<rparr>
               in ([EvQueueSubmit (m_frameIndex s) result, EvFrameIndex (m_frameIndex s')], True, s')))"

definition updateFrameTimings :: "real \<Rightarrow> real \<Rightarrow> Renderer \<Rightarrow> Renderer" where
  "updateFrameTimings cpuTime gpuTime s =
     (let s = s\<lparr>m_hostTimeAverage := m_hostTimeAverage s @ [cpuTime]\<rparr>
      in if gpuTime > 0 then s\<lparr>m_deviceTimeAverage := m_deviceTimeAverage s @ [gpuTime]\<rparr> else s)"

subsection \<open>Recording the commands of a frame (lines 654 to 717)\<close>

text \<open>
  The commands in the order the code records them.  The contents of the push constants and
  the semaphores of the submission are left out.  The image index is the one the driver
  hands out; \<^verbatim>\<open>m_lastSwapchainImage\<close> points to the attachment at that index.
\<close>

definition initialTransitions :: "Renderer \<Rightarrow> (int \<times> ImageState \<times> ImageState) list" where
  "initialTransitions s =
     map (\<lambda>index. if m_clearPreviousRenderBuffer s \<and> int index = previousFrameIndex s
                   then (int index, Undefined, CopyDest)
                   else (int index, Undefined, ShaderReadWrite))
         [0..<numConcurrentFrames s]"

definition displayPass :: "int \<Rightarrow> nat \<Rightarrow> Event list" where
  "displayPass cur imageIndex =
     [EvRecord cur (CmdBeginRenderPass imageIndex),
      EvRecord cur (CmdBindPipeline DisplayPipeline),
      EvRecord cur (CmdBindDescriptorSets DisplayPipeline cur),
      EvRecord cur (CmdPushConstants DisplayPipeline),
      EvRecord cur CmdSetViewport,
      EvRecord cur CmdSetScissor,
      EvRecord cur (CmdDraw 3 1),
      EvRecord cur CmdEndRenderPass]"

definition recordFrameCommands :: "FrameEnv \<Rightarrow> bool \<Rightarrow> Renderer \<Rightarrow> Event list \<times> nat \<times> Renderer" where
  "recordFrameCommands env readyToRender s =
     (let cur = currentFrameIndex s;
          prev = previousFrameIndex s;
          currentFrameQueryIndex = cur * 2;
          renderRect = m_renderBufferSize s;
          swapchainImageIndex = 0;
          ev1 = [EvBegin cur,
                 EvRecord cur (CmdResetQueryPool currentFrameQueryIndex 2),
                 EvRecord cur (CmdWriteTimestamp TopOfPipe currentFrameQueryIndex)];
          ev2 = (if \<not> m_renderBuffersReady s
                 then [EvRecord cur (CmdResourceBarrier (initialTransitions s))] else []);
          ev3 = (if m_clearPreviousRenderBuffer s
                 then (if m_renderBuffersReady s
                       then [EvRecord cur (CmdResourceBarrier [(prev, Undefined, CopyDest)])] else [])
                      @ [EvRecord cur (CmdClearColorImage prev CopyDest),
                         EvRecord cur (CmdResourceBarrier [(prev, CopyDest, ShaderReadWrite)])]
                 else []);
          s = s\<lparr>m_renderBuffersReady := True, m_clearPreviousRenderBuffer := False\<rparr>;
          (ev4, s) =
            (if readyToRender
             then ([EvRecord cur (CmdBindPipeline RenderPipeline),
                    EvRecord cur (CmdBindDescriptorSets RenderPipeline cur),
                    EvRecord cur (CmdPushConstants RenderPipeline),
                    EvRecord cur (CmdTraceRays (width renderRect) (height renderRect))],
                   s\<lparr>m_lastRenderBuffer := Some cur\<rparr>)
             else ([], s));
          ev5 = [EvRecord cur (CmdResourceBarrier [(cur, ShaderReadWrite, ShaderRead)])];
          (ev6, swapchainImageIndex, s) =
            (if isValid (m_swapchainSize s)
             then (let (eva, acquired, swapchainImageIndex) =
                         acquireNextSwapchainImage env swapchainImageIndex
                   in if acquired
                      then (eva @ displayPass cur swapchainImageIndex, swapchainImageIndex,
                            s\<lparr>m_lastSwapchainImage := Some swapchainImageIndex\<rparr>)
                      else (eva, swapchainImageIndex, s))
             else ([], swapchainImageIndex, s));
          ev7 = [EvRecord cur (CmdResourceBarrier [(cur, ShaderRead, ShaderReadWrite)]),
                 EvRecord cur (CmdWriteTimestamp BottomOfPipe (currentFrameQueryIndex + 1)),
                 EvEnd cur]
      in (ev1 @ ev2 @ ev3 @ ev4 @ ev5 @ ev6 @ ev7, swapchainImageIndex, s))"

subsection \<open>renderFrame\<close>

text \<open>
  \<^verbatim>\<open>renderFrame\<close> indexes \<^verbatim>\<open>m_frameResources\<close> with the current and the previous
  frame index.  Outside the vector the behaviour of the code is undefined, and the model
  has no result there (\<open>None\<close>).  Without a window the function returns at once.
\<close>

definition frameIndexInRange :: "Renderer \<Rightarrow> bool" where
  "frameIndexInRange s \<longleftrightarrow>
     0 \<le> currentFrameIndex s \<and> currentFrameIndex s < int (numConcurrentFrames s) \<and>
     0 \<le> previousFrameIndex s \<and> previousFrameIndex s < int (numConcurrentFrames s)"

definition renderFrame :: "FrameEnv \<Rightarrow> Renderer \<Rightarrow> (Event list \<times> Renderer) option" where
  "renderFrame env s =
     (if \<not> m_window s then Some ([], s)
      else
        (let (ev0, s) = resizeSwapchain env s;
             cur = currentFrameIndex s;
             previousFrameQueryIndex = previousFrameIndex s * 2
         in if \<not> frameIndexInRange s then None
            else
              (let ev1 = [EvWaitForFence cur, EvResetFence cur, EvUpdateRetiredResources];
                   readyToRender = isReadyToRender env;
                   (ev2, s) =
                     (if readyToRender
                      then ([EvIsReadyToRender readyToRender, EvWriteDescriptor cur, EvWriteDescriptors cur],
                            beginRenderIteration s)
                      else ([EvIsReadyToRender readyToRender], s));
                   ev3 = [EvSubmitCommandBuffers];
                   (ev4, swapchainImageIndex, s) = recordFrameCommands env readyToRender s;
                   (ev5, submitted, s) = submitFrameCommands env s;
                   ev6 = (if submitted
                          then (if isValid (m_swapchainSize s)
                                then fst (presentSwapchainImage env swapchainImageIndex) else [])
                          else []);
                   ev7 = [EvCommandBuffersProceed, EvFrameAdvanceProceed];
                   previousDeviceTime =
                     (case queryTimeElapsed env previousFrameQueryIndex of
                        None \<Rightarrow> - 1 | Some t \<Rightarrow> t);
                   ev8 = [EvQueryTimeElapsed previousFrameQueryIndex,
                          EvUpdateFrameTimings (cpuFrameTime env) previousDeviceTime];
                   s = updateFrameTimings (cpuFrameTime env) previousDeviceTime s
               in Some (ev0 @ ev1 @ ev2 @ ev3 @ ev4 @ ev5 @ ev6 @ ev7 @ ev8, s))))"

subsection \<open>The steps of the frame scheduler\<close>

text \<open>
  The ten steps of a frame, and the call that marks each: the fence wait, the retired
  resources, \<^verbatim>\<open>isReadyToRender\<close>, the first descriptor write, \<^verbatim>\<open>commandBuffer.begin\<close>,
  \<^verbatim>\<open>vkQueueSubmit\<close>, \<^verbatim>\<open>vkAcquireNextImageKHR\<close>, \<^verbatim>\<open>vkQueuePresentKHR\<close>, the
  assignment to \<^verbatim>\<open>m_frameIndex\<close> and \<^verbatim>\<open>updateFrameTimings\<close>.
\<close>

datatype Step =
    AcquireSlot
  | ReclaimExpired
  | CheckReady
  | RefreshBindings
  | RecordCommands
  | Submit
  | AcquirePresentImage
  | Present
  | AdvanceRing
  | MeasureTiming

fun stepOf :: "Event \<Rightarrow> Step option" where
  "stepOf (EvWaitForFence i) = Some AcquireSlot"
| "stepOf EvUpdateRetiredResources = Some ReclaimExpired"
| "stepOf (EvIsReadyToRender b) = Some CheckReady"
| "stepOf (EvWriteDescriptor i) = Some RefreshBindings"
| "stepOf (EvBegin i) = Some RecordCommands"
| "stepOf (EvQueueSubmit i r) = Some Submit"
| "stepOf (EvAcquireNextImage r) = Some AcquirePresentImage"
| "stepOf (EvQueuePresent i r) = Some Present"
| "stepOf (EvFrameIndex i) = Some AdvanceRing"
| "stepOf (EvUpdateFrameTimings c g) = Some MeasureTiming"
| "stepOf e = None"

fun steps :: "Event list \<Rightarrow> Step list" where
  "steps [] = []"
| "steps (e # es) = (case stepOf e of None \<Rightarrow> steps es | Some st \<Rightarrow> st # steps es)"

text \<open>The order of section 4.4 of the specification, and the order the code has.\<close>

definition specifiedOrder :: "Step list" where
  "specifiedOrder =
     [AcquireSlot, ReclaimExpired, CheckReady, RefreshBindings, RecordCommands, Submit,
      AcquirePresentImage, Present, AdvanceRing, MeasureTiming]"

definition codeOrder :: "Step list" where
  "codeOrder =
     [AcquireSlot, ReclaimExpired, CheckReady, RefreshBindings, RecordCommands,
      AcquirePresentImage, Submit, AdvanceRing, Present, MeasureTiming]"

text \<open>\<open>inOrder xs order\<close>: the steps \<open>xs\<close> occur one after the other as \<open>order\<close> lists them.\<close>

fun inOrder :: "Step list \<Rightarrow> Step list \<Rightarrow> bool" where
  "inOrder [] order = True"
| "inOrder (x # xs) [] = False"
| "inOrder (x # xs) (y # ys) = (if x = y then inOrder xs ys else inOrder (x # xs) ys)"

text \<open>The events that delimit the recording, the acquisition and the submission.\<close>

fun isRecordingMark :: "Event \<Rightarrow> bool" where
  "isRecordingMark (EvBegin i) = True"
| "isRecordingMark (EvAcquireNextImage r) = True"
| "isRecordingMark (EvEnd i) = True"
| "isRecordingMark (EvQueueSubmit i r) = True"
| "isRecordingMark e = False"

text \<open>One frame seen from outside: its steps, its recording marks, the renderer it leaves.\<close>

definition frameSteps :: "FrameEnv \<Rightarrow> Renderer \<Rightarrow> Step list option" where
  "frameSteps env s = map_option (steps \<circ> fst) (renderFrame env s)"

definition frameMarks :: "FrameEnv \<Rightarrow> Renderer \<Rightarrow> Event list option" where
  "frameMarks env s = map_option (filter isRecordingMark \<circ> fst) (renderFrame env s)"

definition frameState :: "FrameEnv \<Rightarrow> Renderer \<Rightarrow> Renderer option" where
  "frameState env s = map_option snd (renderFrame env s)"

text \<open>The timestamp queries a frame writes into its command buffer, and the ones it reads back.\<close>

fun writtenQueries :: "Event list \<Rightarrow> int list" where
  "writtenQueries [] = []"
| "writtenQueries (EvRecord c (CmdWriteTimestamp st q) # es) = q # writtenQueries es"
| "writtenQueries (e # es) = writtenQueries es"

fun readQueries :: "Event list \<Rightarrow> int list" where
  "readQueries [] = []"
| "readQueries (EvQueryTimeElapsed q # es) = q # readQueries es"
| "readQueries (e # es) = readQueries es"

definition frameWrittenQueries :: "FrameEnv \<Rightarrow> Renderer \<Rightarrow> int list option" where
  "frameWrittenQueries env s = map_option (writtenQueries \<circ> fst) (renderFrame env s)"

definition frameReadQueries :: "FrameEnv \<Rightarrow> Renderer \<Rightarrow> int list option" where
  "frameReadQueries env s = map_option (readQueries \<circ> fst) (renderFrame env s)"

subsection \<open>Runs of calls between two job-graph builds\<close>

text \<open>
  Between two calls of \<^verbatim>\<open>jobsToExecute\<close> the renderer is notified of changes and renders
  frames.  A run has no result when one of its frames has none.
\<close>

datatype Call = MarkDirty DirtySet | RenderFrame FrameEnv

fun call :: "Call \<Rightarrow> Renderer \<Rightarrow> Renderer option" where
  "call (MarkDirty changes) s = Some (markDirty changes s)"
| "call (RenderFrame env) s = frameState env s"

fun calls :: "Call list \<Rightarrow> Renderer \<Rightarrow> Renderer option" where
  "calls [] s = Some s"
| "calls (c # cs) s = (case call c s of None \<Rightarrow> None | Some s' \<Rightarrow> calls cs s')"




subsection \<open>grabImage\<close>















subsection \<open>A small renderer and a pass to run the definitions on\<close>

definition demoFrame :: FrameResources where
  "demoFrame = \<lparr>renderBuffer = None, displayBufferBinding = None, renderBufferBinding = None,
                 prevRenderBufferBinding = None\<rparr>"

text \<open>Two slots with their render buffers, each bound to the other one as its previous.\<close>

definition demoSlot0 :: FrameResources where
  "demoSlot0 = \<lparr>renderBuffer = Some 100, displayBufferBinding = Some 100,
                 renderBufferBinding = Some 100, prevRenderBufferBinding = Some 101\<rparr>"

definition demoSlot1 :: FrameResources where
  "demoSlot1 = \<lparr>renderBuffer = Some 101, displayBufferBinding = Some 101,
                 renderBufferBinding = Some 101, prevRenderBufferBinding = Some 100\<rparr>"

definition demoRenderer :: Renderer where
  "demoRenderer =
     \<lparr>m_window = True, m_swapchain = True, m_swapchainFormat = VK_FORMAT_B8G8R8A8_UNORM,
      m_swapchainSize = \<lparr>width = 4, height = 3\<rparr>, m_renderBufferSize = \<lparr>width = 4, height = 3\<rparr>,
      m_swapchainAttachments = [10, 11], m_lastSwapchainImage = None, m_lastRenderBuffer = None,
      m_renderBuffersReady = False, m_clearPreviousRenderBuffer = True, m_frameNumber = 0,
      m_frameElapsedTimer = True, m_frameIndex = 0, m_frameResources = [demoSlot0, demoSlot1],
      m_hostTimeAverage = [], m_deviceTimeAverage = [], m_dirtySet = NoneDirty,
      m_renderables = [], m_activeCamera = None, m_dependencies = (\<lambda>j. []), m_jobSerial = 0\<rparr>"

definition demoJobsEnv :: JobsEnv where
  "demoJobsEnv =
     \<lparr>geometryDirtyComponents = [1], geometryLookupHandle = (\<lambda>i. if i = 1 then Some 21 else None),
      textureImageDirtyComponents = [5, 6, 7],
      textureImageLookupHandle = (\<lambda>i. if i = 6 then None else Some (i + 30)),
      materialDirtyComponents = [3], materialLookupHandle = (\<lambda>i. Some (i + 40)),
      materialActiveHandles = [41, 42, 43], expiredJob = (\<lambda>j. False),
      settingsCamera = Some 9, gatheredRenderables = [2]\<rparr>"

definition demoFrameEnv :: FrameEnv where
  "demoFrameEnv =
     \<lparr>querySwapchainSize = Some \<lparr>width = 4, height = 3\<rparr>, createSwapchain = True,
      getSwapchainImages = Some [10, 11], createImage = (\<lambda>i. Some (100 + i)),
      isReadyToRender = True, acquireNextImage = (VK_SUCCESS, 1), queueSubmit = VK_SUCCESS,
      queuePresent = VK_SUCCESS, cpuFrameTime = 2, queryTimeElapsed = (\<lambda>q. Some 1)\<rparr>"

text \<open>The same frame with a lost device at submission, and with a GPU time of exactly zero.\<close>

definition demoSubmitFails :: FrameEnv where
  "demoSubmitFails = demoFrameEnv\<lparr>queueSubmit := VK_ERROR_DEVICE_LOST\<rparr>"

definition demoZeroGpuTime :: FrameEnv where
  "demoZeroGpuTime = demoFrameEnv\<lparr>queryTimeElapsed := (\<lambda>q. Some 0)\<rparr>"

text \<open>A ring of one slot.\<close>

definition demoSingleSlot :: Renderer where
  "demoSingleSlot = demoRenderer\<lparr>m_frameResources := [demoFrame]\<rparr>"




definition demoMinimised :: FrameEnv where
  "demoMinimised = demoFrameEnv\<lparr>querySwapchainSize := Some \<lparr>width = 0, height = 0\<rparr>\<rparr>"





section \<open>The job graph\<close>

lemma dirty_addDependency [simp]: "m_dirtySet (addDependency j d s) = m_dirtySet s"
  by (simp add: addDependency_def)

lemma dirty_addDependencies [simp]: "m_dirtySet (addDependencies j ds s) = m_dirtySet s"
  by (induction ds arbitrary: s) simp_all

lemma dirty_addDependenciesAll [simp]: "m_dirtySet (addDependenciesAll js ds s) = m_dirtySet s"
  by (induction js arbitrary: s) simp_all

lemma dirty_allocated [simp]: "m_dirtySet (allocated j s) = m_dirtySet s"
  by (simp add: allocated_def)

lemma dirty_removeDependency [simp]: "m_dirtySet (removeDependency e j d s) = m_dirtySet s"
  by (simp add: removeDependency_def split: option.splits)

lemma dirty_resetRenderProgress [simp]: "m_dirtySet (resetRenderProgress s) = m_dirtySet s"
  by (simp add: resetRenderProgress_def)

lemma dirty_buildGeometryJobs [simp]: "m_dirtySet (snd (buildGeometryJobs f ids s)) = m_dirtySet s"
proof (induction ids arbitrary: s)
  case Nil
  show ?case by simp
next
  case (Cons a ids)
  show ?case
  proof (cases "f a")
    case None
    then show ?thesis using Cons.IH [of s] by simp
  next
    case (Some h)
    then show ?thesis
      using Cons.IH [of "allocated (BuildGeometryJob (m_jobSerial s) h) s"]
      by (simp add: Let_def case_prod_beta)
  qed
qed

lemma dirty_uploadTextureJobs [simp]: "m_dirtySet (snd (uploadTextureJobs f ids s)) = m_dirtySet s"
proof (induction ids arbitrary: s)
  case Nil
  show ?case by simp
next
  case (Cons a ids)
  show ?case
  proof (cases "f a")
    case None
    then show ?thesis using Cons.IH [of s] by simp
  next
    case (Some h)
    then show ?thesis
      using Cons.IH [of "allocated (UploadTextureJob (m_jobSerial s) h) s"]
      by (simp add: Let_def case_prod_beta)
  qed
qed

lemma dirty_prologue: "m_dirtySet (snd (jobsPrologue env s)) = m_dirtySet s"
  by (simp add: jobsPrologue_def Let_def)

lemma locals_prologue: "fst (jobsPrologue env s) = initialLocals\<lparr>jobs := [DestroyExpiredResourcesJob]\<rparr>"
  by (simp add: jobsPrologue_def Let_def initialLocals_def)

lemma none_sceneFlags: "m_dirtySet s = NoneDirty \<Longrightarrow> jobsSceneFlags (l, s) = (l, s)"
  by (simp add: jobsSceneFlags_def NoneDirty_def)
lemma none_geometry: "m_dirtySet s = NoneDirty \<Longrightarrow> jobsGeometry env (l, s) = (l, s)"
  by (simp add: jobsGeometry_def NoneDirty_def)
lemma none_texture: "m_dirtySet s = NoneDirty \<Longrightarrow> jobsTexture env (l, s) = (l, s)"
  by (simp add: jobsTexture_def NoneDirty_def)
lemma none_material: "m_dirtySet s = NoneDirty \<Longrightarrow> jobsMaterial env (l, s) = (l, s)"
  by (simp add: jobsMaterial_def NoneDirty_def)

lemma none_jobs: "m_dirtySet s = NoneDirty \<Longrightarrow> fst (jobsToExecute env s) = [DestroyExpiredResourcesJob]"
proof -
  assume n: "m_dirtySet s = NoneDirty"
  obtain l s1 where p: "jobsPrologue env s = (l, s1)" by (cases "jobsPrologue env s")
  have d1: "m_dirtySet s1 = NoneDirty" using dirty_prologue[of env s] p n by simp
  have l1: "l = initialLocals\<lparr>jobs := [DestroyExpiredResourcesJob]\<rparr>" using locals_prologue[of env s] p by simp
  show ?thesis
    unfolding jobsToExecute_def p none_sceneFlags[OF d1] none_geometry[OF d1] none_texture[OF d1] none_material[OF d1]
    using d1 by (simp add: jobsCameraAndReset_def jobsScene_def l1 initialLocals_def NoneDirty_def Let_def)
qed


lemma deps_addDependencies:
  "m_dependencies (addDependencies j ds s) k = (if k = j then m_dependencies s j @ ds else m_dependencies s k)"
  by (induction ds arbitrary: s) (simp_all add: addDependency_def)

lemma kinds_buildGeometryJobs:
  "filter isUpdateMaterialsJob (fst (buildGeometryJobs f ids s)) = [] \<and>
   filter isUploadTextureJob (fst (buildGeometryJobs f ids s)) = []"
proof (induction ids arbitrary: s)
  case Nil
  show ?case by simp
next
  case (Cons a ids)
  show ?case
  proof (cases "f a")
    case None
    then show ?thesis using Cons.IH [of s] by simp
  next
    case (Some h)
    then show ?thesis
      using Cons.IH [of "allocated (BuildGeometryJob (m_jobSerial s) h) s"]
      by (simp add: Let_def case_prod_beta)
  qed
qed

lemma kinds_uploadTextureJobs:
  "filter isUpdateMaterialsJob (fst (uploadTextureJobs f ids s)) = [] \<and>
   filter isUploadTextureJob (fst (uploadTextureJobs f ids s)) = fst (uploadTextureJobs f ids s)"
proof (induction ids arbitrary: s)
  case Nil
  show ?case by simp
next
  case (Cons a ids)
  show ?case
  proof (cases "f a")
    case None
    then show ?thesis using Cons.IH [of s] by simp
  next
    case (Some h)
    then show ?thesis
      using Cons.IH [of "allocated (UploadTextureJob (m_jobSerial s) h) s"]
      by (simp add: Let_def case_prod_beta)
  qed
qed

lemma prologue_views:
  "filter isUpdateMaterialsJob (jobs (fst (jobsPrologue env s))) = [] \<and> filter isUploadTextureJob (jobs (fst (jobsPrologue env s))) = []"
  by (simp add: locals_prologue initialLocals_def)

lemma sceneFlags_views:
  "filter isUpdateMaterialsJob (jobs (fst (jobsSceneFlags p))) = filter isUpdateMaterialsJob (jobs (fst p)) \<and>
   filter isUploadTextureJob (jobs (fst (jobsSceneFlags p))) = filter isUploadTextureJob (jobs (fst p)) \<and>
   m_dirtySet (snd (jobsSceneFlags p)) = m_dirtySet (snd p)"
  by (cases p) (simp add: jobsSceneFlags_def Let_def)

lemma geometry_views:
  "filter isUpdateMaterialsJob (jobs (fst (jobsGeometry env p))) = filter isUpdateMaterialsJob (jobs (fst p)) \<and>
   filter isUploadTextureJob (jobs (fst (jobsGeometry env p))) = filter isUploadTextureJob (jobs (fst p)) \<and>
   m_dirtySet (snd (jobsGeometry env p)) = m_dirtySet (snd p)"
  by (cases p)
     (simp add: jobsGeometry_def createGeometryJobs_def Let_def
        case_prod_beta kinds_buildGeometryJobs)

lemma texture_views:
  assumes "TextureDirty \<in> m_dirtySet (snd p)"
  shows "filter isUpdateMaterialsJob (jobs (fst (jobsTexture env p))) = filter isUpdateMaterialsJob (jobs (fst p)) \<and>
   filter isUploadTextureJob (jobs (fst (jobsTexture env p))) = filter isUploadTextureJob (jobs (fst p)) @ textureJobs (fst (jobsTexture env p)) \<and>
   m_dirtySet (snd (jobsTexture env p)) = m_dirtySet (snd p)"
  using assms
  by (cases p)
     (simp add: jobsTexture_def createTextureJobs_def Let_def
        case_prod_beta kinds_uploadTextureJobs)

lemma material_views:
  assumes "TextureDirty \<in> m_dirtySet (snd p)"
  shows "\<exists>n. filter isUpdateMaterialsJob (jobs (fst (jobsMaterial env p))) = filter isUpdateMaterialsJob (jobs (fst p)) @ [UpdateMaterialsJob n (materialActiveHandles env)] \<and>
   m_dependencies (snd (jobsMaterial env p)) (UpdateMaterialsJob n (materialActiveHandles env)) = textureJobs (fst p)"
  using assms
  by (cases p)
     (simp add: jobsMaterial_def createMaterialJobs_def Let_def
        case_prod_beta deps_addDependencies allocated_def)

lemma material_views2:
  shows "filter isUploadTextureJob (jobs (fst (jobsMaterial env p))) = filter isUploadTextureJob (jobs (fst p)) \<and>
   m_dirtySet (snd (jobsMaterial env p)) = m_dirtySet (snd p)"
  by (cases p)
     (simp add: jobsMaterial_def createMaterialJobs_def Let_def
        case_prod_beta)

lemma camera_views:
  "filter isUpdateMaterialsJob (jobs (fst (jobsCameraAndReset env p))) = filter isUpdateMaterialsJob (jobs (fst p)) \<and>
   filter isUploadTextureJob (jobs (fst (jobsCameraAndReset env p))) = filter isUploadTextureJob (jobs (fst p)) \<and>
   m_dependencies (snd (jobsCameraAndReset env p)) = m_dependencies (snd p)"
  by (cases p)
     (simp add: jobsCameraAndReset_def Let_def
        case_prod_beta updateActiveCamera_def split: option.splits)

lemma scene_views:
  "filter isUpdateMaterialsJob (fst (jobsScene p)) = filter isUpdateMaterialsJob (jobs (fst p)) \<and>
   filter isUploadTextureJob (fst (jobsScene p)) = filter isUploadTextureJob (jobs (fst p)) \<and>
   m_dependencies (snd (jobsScene p)) (UpdateMaterialsJob n hs) = m_dependencies (snd p) (UpdateMaterialsJob n hs)"
  by (cases p)
     (simp add: jobsScene_def Let_def
        case_prod_beta deps_addDependencies allocated_def addDependency_def)


lemma prologue_textureJobs: "textureJobs (fst (jobsPrologue env s)) = []"
  by (simp add: locals_prologue initialLocals_def)

lemma sceneFlags_textureJobs: "textureJobs (fst (jobsSceneFlags p)) = textureJobs (fst p)"
  by (cases p) (simp add: jobsSceneFlags_def Let_def)

lemma geometry_textureJobs: "textureJobs (fst (jobsGeometry env p)) = textureJobs (fst p)"
  by (cases p) (simp add: jobsGeometry_def Let_def case_prod_beta)

text \<open>
  Claim C4.  When the Texture flag is in the dirty set, whatever the other flags, the lists
  of dirty and of active materials and the number of renderables, the job list that
  \<^verbatim>\<open>jobsToExecute\<close> returns holds exactly one material-update job; the handles given to it
  are all the active materials, and its dependency list is the list of the texture-upload
  jobs of the returned job list, which are the ones created in this pass.
\<close>

theorem texture_dirty_one_material_job:
  assumes "TextureDirty \<in> m_dirtySet s"
  shows "\<exists>n. filter isUpdateMaterialsJob (fst (jobsToExecute env s)) =
               [UpdateMaterialsJob n (materialActiveHandles env)] \<and>
             m_dependencies (snd (jobsToExecute env s)) (UpdateMaterialsJob n (materialActiveHandles env)) =
               filter isUploadTextureJob (fst (jobsToExecute env s))"
proof -
  define p0 where "p0 = jobsPrologue env s"
  define p1 where "p1 = jobsSceneFlags p0"
  define p2 where "p2 = jobsGeometry env p1"
  define p3 where "p3 = jobsTexture env p2"
  define p4 where "p4 = jobsMaterial env p3"
  define p5 where "p5 = jobsCameraAndReset env p4"
  have res: "jobsToExecute env s = jobsScene p5"
    by (simp add: jobsToExecute_def p0_def p1_def p2_def p3_def p4_def p5_def)
  have d2: "m_dirtySet (snd p2) = m_dirtySet s"
    by (simp add: p2_def p1_def p0_def geometry_views sceneFlags_views dirty_prologue)
  then have t2: "TextureDirty \<in> m_dirtySet (snd p2)"
    using assms by simp
  have m2: "filter isUpdateMaterialsJob (jobs (fst p2)) = []"
    by (simp add: p2_def p1_def p0_def geometry_views sceneFlags_views prologue_views)
  have x2: "filter isUploadTextureJob (jobs (fst p2)) = []"
    by (simp add: p2_def p1_def p0_def geometry_views sceneFlags_views prologue_views)
  have m3: "filter isUpdateMaterialsJob (jobs (fst p3)) = []"
    using texture_views [OF t2, of env] m2 by (simp add: p3_def)
  have x3: "filter isUploadTextureJob (jobs (fst p3)) = textureJobs (fst p3)"
    using texture_views [OF t2, of env] x2 by (simp add: p3_def)
  have t3: "TextureDirty \<in> m_dirtySet (snd p3)"
    using texture_views [OF t2, of env] t2 by (simp add: p3_def)
  obtain n where
    m4: "filter isUpdateMaterialsJob (jobs (fst p4)) = [UpdateMaterialsJob n (materialActiveHandles env)]" and
    e4: "m_dependencies (snd p4) (UpdateMaterialsJob n (materialActiveHandles env)) = textureJobs (fst p3)"
    using material_views [OF t3, of env] m3 by (auto simp: p4_def)
  have x4: "filter isUploadTextureJob (jobs (fst p4)) = textureJobs (fst p3)"
    using material_views2 [of env p3] x3 by (simp add: p4_def)
  have m5: "filter isUpdateMaterialsJob (jobs (fst p5)) = [UpdateMaterialsJob n (materialActiveHandles env)]"
    using camera_views [of env p4] m4 by (simp add: p5_def)
  have x5: "filter isUploadTextureJob (jobs (fst p5)) = textureJobs (fst p3)"
    using camera_views [of env p4] x4 by (simp add: p5_def)
  have e5: "m_dependencies (snd p5) (UpdateMaterialsJob n (materialActiveHandles env)) = textureJobs (fst p3)"
    using camera_views [of env p4] e4 by (simp add: p5_def)
  have "filter isUpdateMaterialsJob (fst (jobsToExecute env s)) =
          [UpdateMaterialsJob n (materialActiveHandles env)]"
    using scene_views [of p5] m5 by (simp add: res)
  moreover have "m_dependencies (snd (jobsToExecute env s)) (UpdateMaterialsJob n (materialActiveHandles env)) =
          filter isUploadTextureJob (fst (jobsToExecute env s))"
    using scene_views [of p5 n "materialActiveHandles env"] x5 e5 by (simp add: res)
  ultimately show ?thesis by blast
qed

lemma demo_jobs:
  "fst (jobsToExecute demoJobsEnv (markDirty {TextureDirty, MaterialDirty} demoRenderer)) =
     [DestroyExpiredResourcesJob, UploadTextureJob 0 35, UploadTextureJob 1 37,
      UpdateMaterialsJob 2 [41, 42, 43]]"
  by (simp add: jobsToExecute_def jobsPrologue_def jobsSceneFlags_def jobsGeometry_def
      jobsTexture_def jobsMaterial_def jobsCameraAndReset_def jobsScene_def
      createTextureJobs_def createMaterialJobs_def demoRenderer_def demoJobsEnv_def
      markDirty_def NoneDirty_def initialLocals_def removeDependency_def resetRenderProgress_def
      allocated_def addDependency_def Let_def)

text \<open>
  The theorem at a pass with three dirty texture images (one of them stale), three active
  materials and one material marked dirty on its own.
\<close>

theorem texture_dirty_one_material_job_witness:
  "TextureDirty \<in> m_dirtySet (markDirty {TextureDirty, MaterialDirty} demoRenderer) \<and>
   (\<exists>n. filter isUpdateMaterialsJob
           (fst (jobsToExecute demoJobsEnv (markDirty {TextureDirty, MaterialDirty} demoRenderer))) =
           [UpdateMaterialsJob n [41, 42, 43]] \<and>
         m_dependencies (snd (jobsToExecute demoJobsEnv (markDirty {TextureDirty, MaterialDirty} demoRenderer)))
           (UpdateMaterialsJob n [41, 42, 43]) =
           [UploadTextureJob 0 35, UploadTextureJob 1 37])"
proof -
  have h: "TextureDirty \<in> m_dirtySet (markDirty {TextureDirty, MaterialDirty} demoRenderer)"
    by (simp add: markDirty_def)
  have a: "materialActiveHandles demoJobsEnv = [41, 42, 43]"
    by (simp add: demoJobsEnv_def)
  show ?thesis
    using h texture_dirty_one_material_job [OF h, of demoJobsEnv]
    by (simp add: a demo_jobs)
qed




lemma dirty_cameraAndReset: "m_dirtySet (snd (jobsCameraAndReset env p)) = NoneDirty"
  by (cases p) (simp add: jobsCameraAndReset_def Let_def case_prod_beta)

lemma dirty_scene: "m_dirtySet (snd (jobsScene p)) = m_dirtySet (snd p)"
  by (cases p) (simp add: jobsScene_def Let_def case_prod_beta)

lemma dirty_jobsToExecute: "m_dirtySet (snd (jobsToExecute env s)) = NoneDirty"
  by (simp add: jobsToExecute_def dirty_scene dirty_cameraAndReset)

text \<open>
  Claim C5.  With nothing dirty, the job list is the reclaim job
  (\<^verbatim>\<open>m_destroyExpiredResourcesJob\<close>) and nothing else: no TLAS, instance-buffer,
  emitter, geometry, texture or material job, with or without renderables.
\<close>
theorem nothing_dirty_only_reclaim_job:
  assumes "m_dirtySet s = NoneDirty"
  shows "fst (jobsToExecute env s) = [DestroyExpiredResourcesJob]"
  using assms by (rule none_jobs)

theorem nothing_dirty_only_reclaim_job_witness:
  "m_dirtySet demoRenderer = NoneDirty \<and>
   fst (jobsToExecute demoJobsEnv demoRenderer) = [DestroyExpiredResourcesJob]"
proof -
  have h: "m_dirtySet demoRenderer = NoneDirty" by (simp add: demoRenderer_def)
  show ?thesis using h nothing_dirty_only_reclaim_job [OF h, of demoJobsEnv] by simp
qed

lemma scene_buildGeometryJobs: "filter isSceneJob (fst (buildGeometryJobs f ids s)) = []"
proof (induction ids arbitrary: s)
  case Nil
  show ?case by simp
next
  case (Cons a ids)
  show ?case
  proof (cases "f a")
    case None
    then show ?thesis using Cons.IH [of s] by simp
  next
    case (Some h)
    then show ?thesis
      using Cons.IH [of "allocated (BuildGeometryJob (m_jobSerial s) h) s"]
      by (simp add: Let_def case_prod_beta)
  qed
qed

lemma scene_uploadTextureJobs: "filter isSceneJob (fst (uploadTextureJobs f ids s)) = []"
proof (induction ids arbitrary: s)
  case Nil
  show ?case by simp
next
  case (Cons a ids)
  show ?case
  proof (cases "f a")
    case None
    then show ?thesis using Cons.IH [of s] by simp
  next
    case (Some h)
    then show ?thesis
      using Cons.IH [of "allocated (UploadTextureJob (m_jobSerial s) h) s"]
      by (simp add: Let_def case_prod_beta)
  qed
qed

lemma no_scene_job_before_renderables_test:
  "filter isSceneJob (jobs (fst (jobsCameraAndReset env (jobsMaterial env (jobsTexture env
      (jobsGeometry env (jobsSceneFlags (jobsPrologue env s)))))))) = []"
proof -
  have a: "filter isSceneJob (jobs (fst (jobsCameraAndReset env p))) = filter isSceneJob (jobs (fst p))" for p
    by (cases p) (simp add: jobsCameraAndReset_def Let_def case_prod_beta)
  have b: "filter isSceneJob (jobs (fst (jobsMaterial env p))) = filter isSceneJob (jobs (fst p))" for p
    by (cases p) (simp add: jobsMaterial_def createMaterialJobs_def Let_def case_prod_beta)
  have c: "filter isSceneJob (jobs (fst (jobsTexture env p))) = filter isSceneJob (jobs (fst p))" for p
    by (cases p) (simp add: jobsTexture_def createTextureJobs_def Let_def case_prod_beta scene_uploadTextureJobs)
  have d: "filter isSceneJob (jobs (fst (jobsGeometry env p))) = filter isSceneJob (jobs (fst p))" for p
    by (cases p) (simp add: jobsGeometry_def createGeometryJobs_def Let_def case_prod_beta scene_buildGeometryJobs)
  have e: "filter isSceneJob (jobs (fst (jobsSceneFlags p))) = filter isSceneJob (jobs (fst p))" for p
    by (cases p) (simp add: jobsSceneFlags_def Let_def)
  show ?thesis
    by (simp add: a b c d e locals_prologue initialLocals_def)
qed

lemma renderables_addDependencies [simp]:
  "m_renderables (addDependencies j ds s) = m_renderables s"
  by (induction ds arbitrary: s) (simp_all add: addDependency_def)

lemma renderables_scene: "m_renderables (snd (jobsScene p)) = m_renderables (snd p)"
  by (cases p) (simp add: jobsScene_def Let_def case_prod_beta addDependency_def allocated_def)

lemma scene_without_renderables:
  "length (m_renderables (snd (jobsScene p))) = 0 \<Longrightarrow> fst (jobsScene p) = jobs (fst p)"
  unfolding renderables_scene by (cases p) (simp add: jobsScene_def)

text \<open>
  Claim C10.  Whatever the pass does, the dirty set is \<^verbatim>\<open>NoneDirty\<close> when
  \<^verbatim>\<open>jobsToExecute\<close> returns.  On the path without renderables the returned list has
  no TLAS, instance-buffer or emitter job; and the pass that follows, if nothing is marked
  dirty in between, schedules the reclaim job only: what was skipped is not asked for again.
\<close>
theorem dirty_set_reset_on_every_path:
  "m_dirtySet (snd (jobsToExecute env s)) = NoneDirty \<and>
   (length (m_renderables (snd (jobsToExecute env s))) = 0 \<longrightarrow>
      filter isSceneJob (fst (jobsToExecute env s)) = []) \<and>
   fst (jobsToExecute env' (snd (jobsToExecute env s))) = [DestroyExpiredResourcesJob]"
proof -
  have "length (m_renderables (snd (jobsToExecute env s))) = 0 \<longrightarrow>
      filter isSceneJob (fst (jobsToExecute env s)) = []"
  proof
    assume "length (m_renderables (snd (jobsToExecute env s))) = 0"
    then have "fst (jobsToExecute env s) =
      jobs (fst (jobsCameraAndReset env (jobsMaterial env (jobsTexture env
        (jobsGeometry env (jobsSceneFlags (jobsPrologue env s)))))))"
      unfolding jobsToExecute_def by (rule scene_without_renderables)
    then show "filter isSceneJob (fst (jobsToExecute env s)) = []"
      by (simp only: no_scene_job_before_renderables_test)
  qed
  then show ?thesis
    by (simp add: dirty_jobsToExecute none_jobs)
qed

text \<open>
  A pass with Transform and Geometry dirty whose gathering finds no renderable: the
  transform, geometry and render-parameter jobs are scheduled, the three scene jobs are
  not, and the pass after it has nothing to do.
\<close>

lemma demo_jobs_no_renderables:
  "jobsToExecute (demoJobsEnv\<lparr>gatheredRenderables := []\<rparr>)
       (markDirty {TransformDirty, GeometryDirty} demoRenderer) = (js, s') \<Longrightarrow>
   js = [DestroyExpiredResourcesJob, UpdateWorldTransformJob, BuildGeometryJob 0 21,
         UpdateRenderParametersJob] \<and> m_renderables s' = []"
  by (auto simp add: jobsToExecute_def jobsPrologue_def jobsSceneFlags_def jobsGeometry_def
      jobsTexture_def jobsMaterial_def jobsCameraAndReset_def jobsScene_def
      createGeometryJobs_def demoRenderer_def demoJobsEnv_def
      markDirty_def NoneDirty_def initialLocals_def removeDependency_def resetRenderProgress_def
      allocated_def addDependency_def Let_def)

theorem dirty_set_reset_on_every_path_witness:
  "length (m_renderables (snd (jobsToExecute (demoJobsEnv\<lparr>gatheredRenderables := []\<rparr>)
       (markDirty {TransformDirty, GeometryDirty} demoRenderer)))) = 0 \<and>
   m_dirtySet (snd (jobsToExecute (demoJobsEnv\<lparr>gatheredRenderables := []\<rparr>)
       (markDirty {TransformDirty, GeometryDirty} demoRenderer))) = NoneDirty \<and>
   filter isSceneJob (fst (jobsToExecute (demoJobsEnv\<lparr>gatheredRenderables := []\<rparr>)
       (markDirty {TransformDirty, GeometryDirty} demoRenderer))) = [] \<and>
   fst (jobsToExecute demoJobsEnv (snd (jobsToExecute (demoJobsEnv\<lparr>gatheredRenderables := []\<rparr>)
       (markDirty {TransformDirty, GeometryDirty} demoRenderer)))) = [DestroyExpiredResourcesJob]"
proof -
  obtain js s' where r: "jobsToExecute (demoJobsEnv\<lparr>gatheredRenderables := []\<rparr>)
       (markDirty {TransformDirty, GeometryDirty} demoRenderer) = (js, s')"
    by (cases "jobsToExecute (demoJobsEnv\<lparr>gatheredRenderables := []\<rparr>)
       (markDirty {TransformDirty, GeometryDirty} demoRenderer)")
  have h: "length (m_renderables s') = 0"
    using demo_jobs_no_renderables [OF r] by simp
  show ?thesis
    using h dirty_set_reset_on_every_path [of "demoJobsEnv\<lparr>gatheredRenderables := []\<rparr>"
        "markDirty {TransformDirty, GeometryDirty} demoRenderer" demoJobsEnv]
    by (simp add: r)
qed

section \<open>One frame\<close>

lemma steps_append: "steps (xs @ ys) = steps xs @ steps ys"
  by (induction xs) (simp_all split: option.splits)

lemma length_createRenderBuffers: "length (snd (createRenderBuffers dev i frames)) = length frames"
  by (induction frames arbitrary: i) (simp_all add: case_prod_beta split: option.splits)

lemma length_fold_writeFrameDescriptors:
  "length (snd (fold writeFrameDescriptors is (p, frames))) = length frames"
  by (induction "is" arbitrary: p frames) (simp_all add: writeFrameDescriptors_def)

lemma length_writeAllFrameDescriptors: "length (writeAllFrameDescriptors frames) = length frames"
  by (simp add: writeAllFrameDescriptors_def length_fold_writeFrameDescriptors)

lemma numFrames_createRenderBufferResources:
  "length (m_frameResources (snd (createRenderBufferResources env sz s))) = length (m_frameResources s)"
  by (simp add: createRenderBufferResources_def case_prod_beta Let_def
      resetRenderProgress_def length_createRenderBuffers length_writeAllFrameDescriptors)

lemma frameIndex_createRenderBufferResources:
  "m_frameIndex (snd (createRenderBufferResources env sz s)) = m_frameIndex s"
  by (simp add: createRenderBufferResources_def case_prod_beta Let_def resetRenderProgress_def)

lemma window_createRenderBufferResources:
  "m_window (snd (createRenderBufferResources env sz s)) = m_window s"
  by (simp add: createRenderBufferResources_def case_prod_beta Let_def resetRenderProgress_def)

lemma times_createRenderBufferResources:
  "m_hostTimeAverage (snd (createRenderBufferResources env sz s)) = m_hostTimeAverage s \<and>
   m_deviceTimeAverage (snd (createRenderBufferResources env sz s)) = m_deviceTimeAverage s"
  by (simp add: createRenderBufferResources_def case_prod_beta Let_def resetRenderProgress_def)

lemma resize_keeps:
  "m_frameIndex (snd (resizeSwapchain env s)) = m_frameIndex s \<and>
   length (m_frameResources (snd (resizeSwapchain env s))) = length (m_frameResources s) \<and>
   m_window (snd (resizeSwapchain env s)) = m_window s \<and>
   m_hostTimeAverage (snd (resizeSwapchain env s)) = m_hostTimeAverage s \<and>
   m_deviceTimeAverage (snd (resizeSwapchain env s)) = m_deviceTimeAverage s"
  by (simp add: resizeSwapchain_def Let_def createSwapchainResources_def
      releaseSwapchainResources_def releaseRenderBufferResources_def
      numFrames_createRenderBufferResources frameIndex_createRenderBufferResources
      window_createRenderBufferResources times_createRenderBufferResources
      split: option.splits)

lemma resize_steps:
  "steps (fst (resizeSwapchain env s)) = [] \<and> filter isRecordingMark (fst (resizeSwapchain env s)) = []"
  by (simp add: resizeSwapchain_def Let_def split: option.splits)

lemma record_events:
  "steps (fst (recordFrameCommands env r s)) =
     RecordCommands # (if isValid (m_swapchainSize s) then [AcquirePresentImage] else []) \<and>
   filter isRecordingMark (fst (recordFrameCommands env r s)) =
     EvBegin (m_frameIndex s) #
       (if isValid (m_swapchainSize s) then [EvAcquireNextImage (fst (acquireNextImage env))] else []) @
       [EvEnd (m_frameIndex s)]"
  by (simp add: recordFrameCommands_def Let_def case_prod_beta steps_append currentFrameIndex_def
      acquireNextSwapchainImage_def displayPass_def)

lemma record_keeps:
  "m_frameIndex (snd (snd (recordFrameCommands env r s))) = m_frameIndex s \<and>
   m_frameResources (snd (snd (recordFrameCommands env r s))) = m_frameResources s \<and>
   m_window (snd (snd (recordFrameCommands env r s))) = m_window s \<and>
   m_swapchainSize (snd (snd (recordFrameCommands env r s))) = m_swapchainSize s \<and>
   m_hostTimeAverage (snd (snd (recordFrameCommands env r s))) = m_hostTimeAverage s \<and>
   m_deviceTimeAverage (snd (snd (recordFrameCommands env r s))) = m_deviceTimeAverage s"
  by (simp add: recordFrameCommands_def Let_def case_prod_beta)


lemma inRange_after_resize:
  assumes "0 \<le> m_frameIndex s" "m_frameIndex s < int (numConcurrentFrames s)"
  shows "frameIndexInRange (snd (resizeSwapchain env s))"
  using assms resize_keeps [of env s]
  by (auto simp: frameIndexInRange_def currentFrameIndex_def previousFrameIndex_def
      numConcurrentFrames_def)

lemma submit_keeps:
  "m_swapchainSize (snd (snd (submitFrameCommands env s))) = m_swapchainSize s \<and>
   m_window (snd (snd (submitFrameCommands env s))) = m_window s \<and>
   m_frameResources (snd (snd (submitFrameCommands env s))) = m_frameResources s \<and>
   m_hostTimeAverage (snd (snd (submitFrameCommands env s))) = m_hostTimeAverage s \<and>
   m_deviceTimeAverage (snd (snd (submitFrameCommands env s))) = m_deviceTimeAverage s"
  by (simp add: submitFrameCommands_def Let_def)

lemma submit_events:
  "steps (fst (submitFrameCommands env s)) =
     Submit # (if VKFAILED (queueSubmit env) then [] else [AdvanceRing]) \<and>
   filter isRecordingMark (fst (submitFrameCommands env s)) =
     [EvQueueSubmit (m_frameIndex s) (queueSubmit env)] \<and>
   fst (snd (submitFrameCommands env s)) = (\<not> VKFAILED (queueSubmit env))"
  by (simp add: submitFrameCommands_def Let_def)

lemma present_events:
  "steps (fst (presentSwapchainImage env i)) = [Present] \<and>
   filter isRecordingMark (fst (presentSwapchainImage env i)) = []"
  by (simp add: presentSwapchainImage_def Let_def)

lemma update_keeps:
  "m_swapchainSize (updateFrameTimings c g s) = m_swapchainSize s \<and>
   m_window (updateFrameTimings c g s) = m_window s \<and>
   m_frameIndex (updateFrameTimings c g s) = m_frameIndex s \<and>
   m_frameResources (updateFrameTimings c g s) = m_frameResources s"
  by (simp add: updateFrameTimings_def Let_def)

lemma begin_keeps:
  "m_swapchainSize (beginRenderIteration s) = m_swapchainSize s \<and>
   m_window (beginRenderIteration s) = m_window s \<and>
   m_frameIndex (beginRenderIteration s) = m_frameIndex s \<and>
   m_frameResources (beginRenderIteration s) = m_frameResources s \<and>
   m_hostTimeAverage (beginRenderIteration s) = m_hostTimeAverage s \<and>
   m_deviceTimeAverage (beginRenderIteration s) = m_deviceTimeAverage s"
  by (simp add: beginRenderIteration_def)

lemma renderFrame_steps:
  assumes "m_window s" "renderFrame env s = Some (es, s')"
  shows "steps es =
     [AcquireSlot, ReclaimExpired, CheckReady] @
     (if isReadyToRender env then [RefreshBindings] else []) @
     [RecordCommands] @
     (if isValid (m_swapchainSize s') then [AcquirePresentImage] else []) @
     [Submit] @
     (if VKFAILED (queueSubmit env) then []
      else AdvanceRing # (if isValid (m_swapchainSize s') then [Present] else [])) @
     [MeasureTiming]"
  using assms
  by (auto simp: renderFrame_def Let_def case_prod_beta steps_append resize_steps record_events
      record_keeps submit_keeps submit_events present_events update_keeps begin_keeps
      split: if_splits)



lemma timestamps_recorded:
  "EvRecord (m_frameIndex s) (CmdWriteTimestamp TopOfPipe (m_frameIndex s * 2))
     \<in> set (fst (recordFrameCommands env r s)) \<and>
   EvRecord (m_frameIndex s) (CmdWriteTimestamp BottomOfPipe (m_frameIndex s * 2 + 1))
     \<in> set (fst (recordFrameCommands env r s))"
  by (simp add: recordFrameCommands_def Let_def case_prod_beta currentFrameIndex_def)


lemma renderFrame_unfold:
  assumes "m_window s" "renderFrame env s = Some (es, s')"
  shows "\<exists>s1 s2 rc sb.
     s1 = snd (resizeSwapchain env s) \<and>
     s2 = (if isReadyToRender env then beginRenderIteration s1 else s1) \<and>
     rc = recordFrameCommands env (isReadyToRender env) s2 \<and>
     sb = submitFrameCommands env (snd (snd rc)) \<and>
     s' = updateFrameTimings (cpuFrameTime env)
            (case queryTimeElapsed env (previousFrameIndex s1 * 2) of None \<Rightarrow> - 1 | Some t \<Rightarrow> t)
            (snd (snd sb)) \<and>
     set (fst rc) \<subseteq> set es \<and>
     EvQueryTimeElapsed (previousFrameIndex s1 * 2) \<in> set es"
  using assms
  by (auto simp: renderFrame_def Let_def case_prod_beta split: if_splits)


lemma renderFrame_marks:
  assumes "m_window s" "renderFrame env s = Some (es, s')"
  shows "filter isRecordingMark es =
     EvBegin (m_frameIndex s) #
     (if isValid (m_swapchainSize s') then [EvAcquireNextImage (fst (acquireNextImage env))] else []) @
     [EvEnd (m_frameIndex s), EvQueueSubmit (m_frameIndex s) (queueSubmit env)]"
  using assms
  by (auto simp: renderFrame_def Let_def case_prod_beta resize_steps record_events resize_keeps
      record_keeps submit_keeps submit_events present_events update_keeps begin_keeps
      split: if_splits)

lemma renderFrame_defined:
  assumes "m_window s" "0 \<le> m_frameIndex s" "m_frameIndex s < int (numConcurrentFrames s)"
  shows "\<exists>es s'. renderFrame env s = Some (es, s')"
  using assms inRange_after_resize [of s env]
  by (simp add: renderFrame_def Let_def case_prod_beta)

lemma c_rem_mod: "0 \<le> a \<Longrightarrow> 0 < b \<Longrightarrow> c_rem a b = a mod b"
  by (simp add: c_rem_def)

lemma submit_frameIndex:
  "m_frameIndex (snd (snd (submitFrameCommands env s))) =
     (if queueSubmit env = VK_SUCCESS
      then c_rem (m_frameIndex s + 1) (int (numConcurrentFrames s)) else m_frameIndex s)"
  by (simp add: submitFrameCommands_def Let_def VKFAILED_def)

lemma renderFrame_frameIndex:
  assumes "m_window s" "renderFrame env s = Some (es, s')"
  shows "m_frameIndex s' =
           (if queueSubmit env = VK_SUCCESS
            then c_rem (m_frameIndex s + 1) (int (numConcurrentFrames s))
            else m_frameIndex s) \<and>
         numConcurrentFrames s' = numConcurrentFrames s \<and> m_window s'"
  using renderFrame_unfold [OF assms]
  by (auto simp: numConcurrentFrames_def resize_keeps record_keeps submit_keeps update_keeps
      begin_keeps submit_frameIndex assms(1))

lemma update_timings:
  "m_hostTimeAverage (updateFrameTimings c g s) = m_hostTimeAverage s @ [c] \<and>
   m_deviceTimeAverage (updateFrameTimings c g s) =
     (if g > 0 then m_deviceTimeAverage s @ [g] else m_deviceTimeAverage s)"
  by (simp add: updateFrameTimings_def Let_def)

lemma previous_after_resize:
  "previousFrameIndex (snd (resizeSwapchain env s)) = previousFrameIndex s"
  by (simp add: previousFrameIndex_def numConcurrentFrames_def resize_keeps)

lemma renderFrame_timings:
  assumes "m_window s" "renderFrame env s = Some (es, s')"
  shows "m_hostTimeAverage s' = m_hostTimeAverage s @ [cpuFrameTime env] \<and>
         m_deviceTimeAverage s' =
           (case queryTimeElapsed env (previousFrameIndex s * 2) of
              None \<Rightarrow> m_deviceTimeAverage s
            | Some t \<Rightarrow> if t > 0 then m_deviceTimeAverage s @ [t] else m_deviceTimeAverage s) \<and>
         EvQueryTimeElapsed (previousFrameIndex s * 2) \<in> set es \<and>
         EvRecord (m_frameIndex s) (CmdWriteTimestamp TopOfPipe (m_frameIndex s * 2)) \<in> set es \<and>
         EvRecord (m_frameIndex s) (CmdWriteTimestamp BottomOfPipe (m_frameIndex s * 2 + 1)) \<in> set es"
proof -
  obtain s1 s2 rc where
    s1: "s1 = snd (resizeSwapchain env s)" and
    s2: "s2 = (if isReadyToRender env then beginRenderIteration s1 else s1)" and
    rc: "rc = recordFrameCommands env (isReadyToRender env) s2" and
    s': "s' = updateFrameTimings (cpuFrameTime env)
            (case queryTimeElapsed env (previousFrameIndex s1 * 2) of None \<Rightarrow> - 1 | Some t \<Rightarrow> t)
            (snd (snd (submitFrameCommands env (snd (snd rc)))))" and
    sub: "set (fst rc) \<subseteq> set es" and
    q: "EvQueryTimeElapsed (previousFrameIndex s1 * 2) \<in> set es"
    using renderFrame_unfold [OF assms] by blast
  have p: "previousFrameIndex s1 = previousFrameIndex s"
    by (simp add: s1 previous_after_resize)
  have i2: "m_frameIndex s2 = m_frameIndex s"
    by (simp add: s2 s1 begin_keeps resize_keeps)
  have h: "m_hostTimeAverage (snd (snd (submitFrameCommands env (snd (snd rc))))) = m_hostTimeAverage s"
    by (simp add: rc s2 s1 submit_keeps record_keeps begin_keeps resize_keeps)
  have d: "m_deviceTimeAverage (snd (snd (submitFrameCommands env (snd (snd rc))))) = m_deviceTimeAverage s"
    by (simp add: rc s2 s1 submit_keeps record_keeps begin_keeps resize_keeps)
  have "m_hostTimeAverage s' = m_hostTimeAverage s @ [cpuFrameTime env]"
    by (simp add: s' update_timings h)
  moreover have "m_deviceTimeAverage s' =
           (case queryTimeElapsed env (previousFrameIndex s * 2) of
              None \<Rightarrow> m_deviceTimeAverage s
            | Some t \<Rightarrow> if t > 0 then m_deviceTimeAverage s @ [t] else m_deviceTimeAverage s)"
    by (simp add: s' update_timings d p split: option.splits)
  moreover have "EvQueryTimeElapsed (previousFrameIndex s * 2) \<in> set es"
    using q p by simp
  moreover have "EvRecord (m_frameIndex s) (CmdWriteTimestamp TopOfPipe (m_frameIndex s * 2)) \<in> set es"
    using timestamps_recorded [of s2 env "isReadyToRender env"] sub by (auto simp: rc i2)
  moreover have "EvRecord (m_frameIndex s) (CmdWriteTimestamp BottomOfPipe (m_frameIndex s * 2 + 1)) \<in> set es"
    using timestamps_recorded [of s2 env "isReadyToRender env"] sub by (auto simp: rc i2)
  ultimately show ?thesis by blast
qed

section \<open>The frame scheduler and the ring\<close>

lemma writtenQueries_append: "writtenQueries (xs @ ys) = writtenQueries xs @ writtenQueries ys"
  by (induction xs rule: writtenQueries.induct) simp_all

lemma readQueries_append: "readQueries (xs @ ys) = readQueries xs @ readQueries ys"
  by (induction xs rule: readQueries.induct) simp_all

lemma resize_queries:
  "writtenQueries (fst (resizeSwapchain env s)) = [] \<and> readQueries (fst (resizeSwapchain env s)) = []"
  by (simp add: resizeSwapchain_def Let_def split: option.splits)

lemma record_queries:
  "writtenQueries (fst (recordFrameCommands env r s)) = [m_frameIndex s * 2, m_frameIndex s * 2 + 1] \<and>
   readQueries (fst (recordFrameCommands env r s)) = []"
  by (simp add: recordFrameCommands_def Let_def case_prod_beta currentFrameIndex_def
      writtenQueries_append readQueries_append acquireNextSwapchainImage_def displayPass_def)

lemma submit_queries:
  "writtenQueries (fst (submitFrameCommands env s)) = [] \<and>
   readQueries (fst (submitFrameCommands env s)) = []"
  by (simp add: submitFrameCommands_def Let_def)

lemma present_queries:
  "writtenQueries (fst (presentSwapchainImage env i)) = [] \<and>
   readQueries (fst (presentSwapchainImage env i)) = []"
  by (simp add: presentSwapchainImage_def Let_def)

lemma renderFrame_queries:
  assumes "m_window s" "renderFrame env s = Some (es, s')"
  shows "writtenQueries es = [m_frameIndex s * 2, m_frameIndex s * 2 + 1] \<and>
         readQueries es = [previousFrameIndex s * 2]"
  using assms
  by (auto simp: renderFrame_def Let_def case_prod_beta writtenQueries_append readQueries_append
      resize_queries record_queries submit_queries present_queries resize_keeps begin_keeps
      previous_after_resize currentFrameIndex_def
      split: if_splits)

lemma renderFrame_swapchainSize:
  assumes "m_window s" "renderFrame env s = Some (es, s')"
  shows "m_swapchainSize s' = m_swapchainSize (snd (resizeSwapchain env s))"
  using renderFrame_unfold [OF assms]
  by (auto simp: record_keeps submit_keeps update_keeps begin_keeps)


lemma inOrder_code_order:
  "inOrder ([AcquireSlot, ReclaimExpired, CheckReady] @
     (if r then [RefreshBindings] else []) @
     [RecordCommands] @
     (if v then [AcquirePresentImage] else []) @
     [Submit] @
     (if f then [] else AdvanceRing # (if v then [Present] else [])) @
     [MeasureTiming]) codeOrder"
  by (cases r; cases v; cases f) (simp_all add: codeOrder_def)

text \<open>
  Claim C1, as the code has it.  In every frame that has a window and a slot index inside
  the ring, the steps occur in the order AcquireSlot, ReclaimExpired, CheckReady,
  RefreshBindings (when the scene is ready), RecordCommands, AcquirePresentImage (when the
  swapchain size is valid), Submit, AdvanceRing (when the submission succeeded), Present
  (when the submission succeeded and the swapchain size is valid), MeasureTiming.  The
  presentable image is acquired while the commands are recorded, between
  \<^verbatim>\<open>commandBuffer.begin\<close> and \<^verbatim>\<open>commandBuffer.end\<close>, hence before the submission;
  the ring index advances inside \<^verbatim>\<open>submitFrameCommands\<close>, hence before the
  presentation.
\<close>
theorem frame_steps_follow_code_order:
  assumes "m_window s" "0 \<le> m_frameIndex s" "m_frameIndex s < int (numConcurrentFrames s)"
  shows "\<exists>xs. frameSteps env s = Some xs \<and> inOrder xs codeOrder \<and>
     xs = [AcquireSlot, ReclaimExpired, CheckReady] @
          (if isReadyToRender env then [RefreshBindings] else []) @
          [RecordCommands] @
          (if isValid (m_swapchainSize (snd (resizeSwapchain env s))) then [AcquirePresentImage] else []) @
          [Submit] @
          (if VKFAILED (queueSubmit env) then []
           else AdvanceRing #
                (if isValid (m_swapchainSize (snd (resizeSwapchain env s))) then [Present] else [])) @
          [MeasureTiming] \<and>
     frameMarks env s = Some (
       EvBegin (m_frameIndex s) #
       (if isValid (m_swapchainSize (snd (resizeSwapchain env s)))
        then [EvAcquireNextImage (fst (acquireNextImage env))] else []) @
       [EvEnd (m_frameIndex s), EvQueueSubmit (m_frameIndex s) (queueSubmit env)])"
proof -
  obtain es s' where r: "renderFrame env s = Some (es, s')"
    using renderFrame_defined [OF assms] by blast
  have sz: "m_swapchainSize s' = m_swapchainSize (snd (resizeSwapchain env s))"
    using renderFrame_swapchainSize [OF assms(1) r] .
  have st: "steps es = [AcquireSlot, ReclaimExpired, CheckReady] @
          (if isReadyToRender env then [RefreshBindings] else []) @
          [RecordCommands] @
          (if isValid (m_swapchainSize (snd (resizeSwapchain env s))) then [AcquirePresentImage] else []) @
          [Submit] @
          (if VKFAILED (queueSubmit env) then []
           else AdvanceRing #
                (if isValid (m_swapchainSize (snd (resizeSwapchain env s))) then [Present] else [])) @
          [MeasureTiming]"
    using renderFrame_steps [OF assms(1) r] by (simp only: sz)
  have io: "inOrder (steps es) codeOrder"
    unfolding st by (rule inOrder_code_order)
  have mk: "filter isRecordingMark es =
       EvBegin (m_frameIndex s) #
       (if isValid (m_swapchainSize (snd (resizeSwapchain env s)))
        then [EvAcquireNextImage (fst (acquireNextImage env))] else []) @
       [EvEnd (m_frameIndex s), EvQueueSubmit (m_frameIndex s) (queueSubmit env)]"
    using renderFrame_marks [OF assms(1) r] by (simp only: sz)
  have "frameSteps env s = Some (steps es)"
    by (simp add: frameSteps_def r)
  moreover have "frameMarks env s = Some (filter isRecordingMark es)"
    by (simp add: frameMarks_def r)
  ultimately show ?thesis
    using st io mk by simp
qed

lemma demo_frame_steps:
  "frameSteps demoFrameEnv demoRenderer =
     Some [AcquireSlot, ReclaimExpired, CheckReady, RefreshBindings, RecordCommands,
           AcquirePresentImage, Submit, AdvanceRing, Present, MeasureTiming]"
  by (simp add: frameSteps_def renderFrame_def resizeSwapchain_def demoFrameEnv_def demoRenderer_def Let_def
     frameIndexInRange_def currentFrameIndex_def previousFrameIndex_def numConcurrentFrames_def
     recordFrameCommands_def acquireNextSwapchainImage_def displayPass_def isValid_def
     submitFrameCommands_def presentSwapchainImage_def VKFAILED_def VKSUCCEEDED_def
     beginRenderIteration_def updateFrameTimings_def initialTransitions_def c_rem_def)

text \<open>The theorem at a frame that is ready, has a valid swapchain and submits with success.\<close>

theorem frame_steps_follow_code_order_witness:
  "m_window demoRenderer \<and> 0 \<le> m_frameIndex demoRenderer \<and>
   m_frameIndex demoRenderer < int (numConcurrentFrames demoRenderer) \<and>
   (\<exists>xs. frameSteps demoFrameEnv demoRenderer = Some xs \<and> inOrder xs codeOrder \<and>
      xs = [AcquireSlot, ReclaimExpired, CheckReady, RefreshBindings, RecordCommands,
            AcquirePresentImage, Submit, AdvanceRing, Present, MeasureTiming]) \<and>
   frameMarks demoFrameEnv demoRenderer =
     Some [EvBegin 0, EvAcquireNextImage VK_SUCCESS, EvEnd 0, EvQueueSubmit 0 VK_SUCCESS]"
proof -
  have a: "m_window demoRenderer" by (simp add: demoRenderer_def)
  have b: "0 \<le> m_frameIndex demoRenderer" by (simp add: demoRenderer_def)
  have c: "m_frameIndex demoRenderer < int (numConcurrentFrames demoRenderer)"
    by (simp add: demoRenderer_def numConcurrentFrames_def)
  have v: "isValid (m_swapchainSize (snd (resizeSwapchain demoFrameEnv demoRenderer)))"
    by (simp add: resizeSwapchain_def demoFrameEnv_def demoRenderer_def isValid_def)
  have e: "isReadyToRender demoFrameEnv"
    "acquireNextImage demoFrameEnv = (VK_SUCCESS, 1)" "queueSubmit demoFrameEnv = VK_SUCCESS"
    "m_frameIndex demoRenderer = 0"
    by (simp_all add: demoFrameEnv_def demoRenderer_def)
  show ?thesis
    using a b c frame_steps_follow_code_order [OF a b c, of demoFrameEnv]
    by (simp add: v e VKFAILED_def)
qed

text \<open>
  Claim C1 as stated fails on that frame: its steps do not occur in the order of the
  specification, which puts the acquisition after the submission and the advance of the
  ring after the presentation.
\<close>

theorem acquire_before_submit_counterexample:
  "frameSteps demoFrameEnv demoRenderer =
     Some [AcquireSlot, ReclaimExpired, CheckReady, RefreshBindings, RecordCommands,
           AcquirePresentImage, Submit, AdvanceRing, Present, MeasureTiming] \<and>
   \<not> inOrder [AcquireSlot, ReclaimExpired, CheckReady, RefreshBindings, RecordCommands,
           AcquirePresentImage, Submit, AdvanceRing, Present, MeasureTiming] specifiedOrder"
  by (simp add: demo_frame_steps specifiedOrder_def)


text \<open>
  Claim C2, as the code has it.  A frame whose submission to the queue succeeds rotates
  the slot index by one modulo the number of slots, whatever the swapchain size and the
  result of the presentation are; a frame whose submission fails leaves the index as it
  was.  The number of slots does not change.
\<close>
theorem ring_advances_when_submitted:
  assumes "m_window s" "0 \<le> m_frameIndex s" "m_frameIndex s < int (numConcurrentFrames s)"
  shows "\<exists>s'. frameState env s = Some s' \<and>
     numConcurrentFrames s' = numConcurrentFrames s \<and>
     m_frameIndex s' =
       (if queueSubmit env = VK_SUCCESS
        then (m_frameIndex s + 1) mod int (numConcurrentFrames s)
        else m_frameIndex s)"
proof -
  obtain es s' where r: "renderFrame env s = Some (es, s')"
    using renderFrame_defined [OF assms] by blast
  have "c_rem (m_frameIndex s + 1) (int (numConcurrentFrames s)) =
        (m_frameIndex s + 1) mod int (numConcurrentFrames s)"
    using assms by (intro c_rem_mod) simp_all
  then have "numConcurrentFrames s' = numConcurrentFrames s \<and>
     m_frameIndex s' =
       (if queueSubmit env = VK_SUCCESS
        then (m_frameIndex s + 1) mod int (numConcurrentFrames s)
        else m_frameIndex s)"
    using renderFrame_frameIndex [OF assms(1) r] by simp
  then show ?thesis
    by (simp add: frameState_def r)
qed

lemma demo_in_range:
  "m_window demoRenderer" "0 \<le> m_frameIndex demoRenderer"
  "m_frameIndex demoRenderer < int (numConcurrentFrames demoRenderer)"
  by (simp_all add: demoRenderer_def numConcurrentFrames_def)

theorem ring_advances_when_submitted_witness:
  "m_window demoRenderer \<and> 0 \<le> m_frameIndex demoRenderer \<and>
   m_frameIndex demoRenderer < int (numConcurrentFrames demoRenderer) \<and>
   map_option m_frameIndex (frameState demoFrameEnv demoRenderer) = Some 1 \<and>
   map_option numConcurrentFrames (frameState demoFrameEnv demoRenderer) = Some 2"
proof -
  have q: "queueSubmit demoFrameEnv = VK_SUCCESS" by (simp add: demoFrameEnv_def)
  have n: "numConcurrentFrames demoRenderer = 2" "m_frameIndex demoRenderer = 0"
    by (simp_all add: demoRenderer_def numConcurrentFrames_def)
  show ?thesis
    using demo_in_range ring_advances_when_submitted [OF demo_in_range, of demoFrameEnv]
    by (auto simp: q n)
qed

text \<open>
  Claim C2 as stated fails when the device is lost at submission: the frame has run, and
  the index is still 0 where rotation by one modulo 2 gives 1.
\<close>

theorem ring_not_advanced_counterexample:
  "map_option m_frameIndex (frameState demoSubmitFails demoRenderer) = Some 0 \<and>
   m_frameIndex demoRenderer = 0 \<and>
   (m_frameIndex demoRenderer + 1) mod int (numConcurrentFrames demoRenderer) = 1"
  by (simp add: frameState_def renderFrame_def resizeSwapchain_def demoSubmitFails_def
     demoFrameEnv_def demoRenderer_def Let_def
     frameIndexInRange_def currentFrameIndex_def previousFrameIndex_def numConcurrentFrames_def
     recordFrameCommands_def acquireNextSwapchainImage_def displayPass_def isValid_def
     submitFrameCommands_def presentSwapchainImage_def VKFAILED_def VKSUCCEEDED_def
     beginRenderIteration_def updateFrameTimings_def initialTransitions_def c_rem_def)

text \<open>
  Claim C7.  For a ring of at least one slot, \<^verbatim>\<open>previousFrameIndex()\<close> is the number of
  slots minus one when the current index is 0, and the current index minus one when the
  current index is positive.
\<close>
theorem previous_frame_index_wraps:
  assumes "1 \<le> numConcurrentFrames s"
  shows "(currentFrameIndex s = 0 \<longrightarrow> previousFrameIndex s = int (numConcurrentFrames s) - 1) \<and>
         (0 < currentFrameIndex s \<longrightarrow> previousFrameIndex s = currentFrameIndex s - 1)"
  by (simp add: previousFrameIndex_def currentFrameIndex_def)

theorem previous_frame_index_wraps_witness:
  "1 \<le> numConcurrentFrames demoRenderer \<and>
   currentFrameIndex demoRenderer = 0 \<and> previousFrameIndex demoRenderer = 1 \<and>
   0 < currentFrameIndex (demoRenderer\<lparr>m_frameIndex := 1\<rparr>) \<and>
   previousFrameIndex (demoRenderer\<lparr>m_frameIndex := 1\<rparr>) = 0"
proof -
  have a: "1 \<le> numConcurrentFrames demoRenderer"
    by (simp add: demoRenderer_def numConcurrentFrames_def)
  have b: "1 \<le> numConcurrentFrames (demoRenderer\<lparr>m_frameIndex := 1\<rparr>)"
    by (simp add: demoRenderer_def numConcurrentFrames_def)
  have c: "currentFrameIndex demoRenderer = 0" "currentFrameIndex (demoRenderer\<lparr>m_frameIndex := 1\<rparr>) = 1"
    "numConcurrentFrames demoRenderer = 2"
    by (simp_all add: demoRenderer_def currentFrameIndex_def numConcurrentFrames_def)
  show ?thesis
    using a previous_frame_index_wraps [OF a] previous_frame_index_wraps [OF b]
    by (simp add: c)
qed


lemma previous_of_next:
  assumes "0 \<le> i" "i < int n"
  shows "(if (i + 1) mod int n > 0 then (i + 1) mod int n - 1 else int n - 1) = i"
proof (cases "i + 1 < int n")
  case True
  then show ?thesis using assms by simp
next
  case False
  then have "i + 1 = int n" using assms by simp
  then show ?thesis by simp
qed

lemma next_differs:
  assumes "0 \<le> i" "i < int n" "2 \<le> n"
  shows "(i + 1) mod int n \<noteq> i"
proof (cases "i + 1 < int n")
  case True
  then show ?thesis using assms by simp
next
  case False
  then have "i + 1 = int n" using assms by simp
  then show ?thesis using assms by simp
qed

text \<open>
  Claim C3, as the code has it.  Take a ring of at least two slots and two frames in a
  row, the first of which submits with success.  The second frame reads back the
  timestamp pair that the first frame wrote, which is not the pair it writes itself; it
  adds its CPU time to the host average in any case, and adds the GPU time read to the
  device average exactly when that time is greater than zero (a failed query leaves
  \<open>-1\<close>; zero and negative values are skipped).
\<close>
theorem gpu_time_one_frame_behind:
  assumes "m_window s" "0 \<le> m_frameIndex s" "m_frameIndex s < int (numConcurrentFrames s)"
    and "2 \<le> numConcurrentFrames s" and "queueSubmit env1 = VK_SUCCESS"
  shows "\<exists>s1 s2.
     frameState env1 s = Some s1 \<and> frameState env2 s1 = Some s2 \<and>
     frameWrittenQueries env1 s = Some [m_frameIndex s * 2, m_frameIndex s * 2 + 1] \<and>
     frameReadQueries env2 s1 = Some [m_frameIndex s * 2] \<and>
     frameWrittenQueries env2 s1 = Some [m_frameIndex s1 * 2, m_frameIndex s1 * 2 + 1] \<and>
     m_frameIndex s1 \<noteq> m_frameIndex s \<and>
     m_hostTimeAverage s2 = m_hostTimeAverage s1 @ [cpuFrameTime env2] \<and>
     m_deviceTimeAverage s2 =
       (case queryTimeElapsed env2 (m_frameIndex s * 2) of
          None \<Rightarrow> m_deviceTimeAverage s1
        | Some t \<Rightarrow> if t > 0 then m_deviceTimeAverage s1 @ [t] else m_deviceTimeAverage s1)"
proof -
  obtain es1 s1 where r1: "renderFrame env1 s = Some (es1, s1)"
    using renderFrame_defined [OF assms(1-3)] by blast
  have n1: "numConcurrentFrames s1 = numConcurrentFrames s" and w1: "m_window s1" and
    i1: "m_frameIndex s1 = (m_frameIndex s + 1) mod int (numConcurrentFrames s)"
    using renderFrame_frameIndex [OF assms(1) r1] assms(2,3,5)
    by (simp_all add: c_rem_mod)
  have pos: "0 < int (numConcurrentFrames s)"
    using assms(4) by simp
  have r1a: "0 \<le> m_frameIndex s1" "m_frameIndex s1 < int (numConcurrentFrames s1)"
    using pos by (simp_all only: i1 n1 pos_mod_sign pos_mod_bound)
  obtain es2 s2 where r2: "renderFrame env2 s1 = Some (es2, s2)"
    using renderFrame_defined [OF w1 r1a] by blast
  have p: "previousFrameIndex s1 = m_frameIndex s"
    unfolding previousFrameIndex_def i1 n1 by (rule previous_of_next [OF assms(2,3)])
  have d: "m_frameIndex s1 \<noteq> m_frameIndex s"
    using next_differs [OF assms(2,3,4)] by (simp add: i1)
  have "frameState env1 s = Some s1" "frameState env2 s1 = Some s2"
    by (simp_all add: frameState_def r1 r2)
  moreover have "frameWrittenQueries env1 s = Some [m_frameIndex s * 2, m_frameIndex s * 2 + 1]"
    using renderFrame_queries [OF assms(1) r1] by (simp add: frameWrittenQueries_def r1)
  moreover have "frameReadQueries env2 s1 = Some [m_frameIndex s * 2]"
    using renderFrame_queries [OF w1 r2] by (simp add: frameReadQueries_def r2 p)
  moreover have "frameWrittenQueries env2 s1 = Some [m_frameIndex s1 * 2, m_frameIndex s1 * 2 + 1]"
    using renderFrame_queries [OF w1 r2] by (simp add: frameWrittenQueries_def r2)
  moreover have "m_hostTimeAverage s2 = m_hostTimeAverage s1 @ [cpuFrameTime env2]"
    using renderFrame_timings [OF w1 r2] by simp
  moreover have "m_deviceTimeAverage s2 =
       (case queryTimeElapsed env2 (m_frameIndex s * 2) of
          None \<Rightarrow> m_deviceTimeAverage s1
        | Some t \<Rightarrow> if t > 0 then m_deviceTimeAverage s1 @ [t] else m_deviceTimeAverage s1)"
    using renderFrame_timings [OF w1 r2] by (simp add: p)
  ultimately show ?thesis using d by blast
qed


lemmas frame_defs =
  renderFrame_def resizeSwapchain_def Let_def
  frameIndexInRange_def currentFrameIndex_def previousFrameIndex_def numConcurrentFrames_def
  recordFrameCommands_def acquireNextSwapchainImage_def displayPass_def isValid_def
  submitFrameCommands_def presentSwapchainImage_def VKFAILED_def VKSUCCEEDED_def
  beginRenderIteration_def updateFrameTimings_def initialTransitions_def c_rem_def

theorem gpu_time_one_frame_behind_witness:
  "m_window demoRenderer \<and> 0 \<le> m_frameIndex demoRenderer \<and>
   m_frameIndex demoRenderer < int (numConcurrentFrames demoRenderer) \<and>
   2 \<le> numConcurrentFrames demoRenderer \<and> queueSubmit demoFrameEnv = VK_SUCCESS \<and>
   (\<exists>s1 s2. frameState demoFrameEnv demoRenderer = Some s1 \<and>
      frameState demoFrameEnv s1 = Some s2 \<and>
      frameWrittenQueries demoFrameEnv demoRenderer = Some [0, 1] \<and>
      frameReadQueries demoFrameEnv s1 = Some [0] \<and>
      m_frameIndex s1 \<noteq> 0 \<and>
      m_hostTimeAverage s2 = m_hostTimeAverage s1 @ [2] \<and>
      m_deviceTimeAverage s2 = m_deviceTimeAverage s1 @ [1])"
proof -
  have n: "2 \<le> numConcurrentFrames demoRenderer"
    by (simp add: demoRenderer_def numConcurrentFrames_def)
  have q: "queueSubmit demoFrameEnv = VK_SUCCESS"
    by (simp add: demoFrameEnv_def)
  have e: "m_frameIndex demoRenderer = 0" "cpuFrameTime demoFrameEnv = 2"
    "queryTimeElapsed demoFrameEnv 0 = Some 1"
    by (simp_all add: demoRenderer_def demoFrameEnv_def)
  show ?thesis
    using demo_in_range n q
      gpu_time_one_frame_behind [OF demo_in_range n q, of demoFrameEnv]
    by (simp add: e) blast
qed

text \<open>
  Claim C3 as stated fails twice.  A GPU time of exactly 0 is not negative, and the frame
  that reads it leaves the device average empty.  And with a ring of one slot the frame
  reads back the pair 0, 1 that it has written itself: the time is the one of the current
  frame, not of the previous one.
\<close>

theorem zero_gpu_time_skipped_counterexample:
  "queryTimeElapsed demoZeroGpuTime 2 = Some 0 \<and>
   frameReadQueries demoZeroGpuTime demoRenderer = Some [2] \<and>
   map_option m_deviceTimeAverage (frameState demoZeroGpuTime demoRenderer) = Some [] \<and>
   map_option m_hostTimeAverage (frameState demoZeroGpuTime demoRenderer) = Some [2] \<and>
   frameWrittenQueries demoFrameEnv demoSingleSlot = Some [0, 1] \<and>
   frameReadQueries demoFrameEnv demoSingleSlot = Some [0]"
  by (simp add: frameState_def frameReadQueries_def frameWrittenQueries_def frame_defs
      demoZeroGpuTime_def demoFrameEnv_def demoRenderer_def demoSingleSlot_def)

lemma clear_targets_previous:
  "EvRecord c (CmdClearColorImage i st) \<in> set (fst (recordFrameCommands env r s)) \<Longrightarrow>
     i = previousFrameIndex s"
  by (auto simp: recordFrameCommands_def Let_def case_prod_beta acquireNextSwapchainImage_def
      displayPass_def split: if_splits)

lemma trace_targets_current:
  "r \<Longrightarrow> m_lastRenderBuffer (snd (snd (recordFrameCommands env r s))) = Some (currentFrameIndex s)"
  by (simp add: recordFrameCommands_def Let_def case_prod_beta)

text \<open>
  Claim C9.  With a ring of one slot the current index is 0 and the previous index is the
  current one; the image a frame clears as the previous render target is the one it
  traces into; and when \<^verbatim>\<open>createRenderBufferResources\<close> succeeds, the single slot's
  previous-render-buffer binding, like its two other bindings, is its own render buffer.
\<close>
theorem single_slot_previous_is_current:
  assumes "numConcurrentFrames s = 1" "0 \<le> m_frameIndex s"
    "m_frameIndex s < int (numConcurrentFrames s)"
  shows "currentFrameIndex s = 0 \<and> previousFrameIndex s = currentFrameIndex s \<and>
     (\<forall>c i st. EvRecord c (CmdClearColorImage i st) \<in> set (fst (recordFrameCommands fenv True s))
        \<longrightarrow> Some i = m_lastRenderBuffer (snd (snd (recordFrameCommands fenv True s)))) \<and>
     (\<forall>s'. createRenderBufferResources env sz s = (True, s') \<longrightarrow>
        (\<exists>frame. m_frameResources s' = [frame] \<and> renderBuffer frame \<noteq> None \<and>
           prevRenderBufferBinding frame = renderBuffer frame \<and>
           renderBufferBinding frame = renderBuffer frame \<and>
           displayBufferBinding frame = renderBuffer frame))"
proof -
  have z: "m_frameIndex s = 0" using assms by simp
  have pc: "previousFrameIndex s = currentFrameIndex s"
    using assms(1) by (simp add: previousFrameIndex_def currentFrameIndex_def z)
  obtain f where f: "m_frameResources s = [f]"
    using assms(1) by (cases "m_frameResources s") (simp_all add: numConcurrentFrames_def)
  have "\<forall>s'. createRenderBufferResources env sz s = (True, s') \<longrightarrow>
        (\<exists>frame. m_frameResources s' = [frame] \<and> renderBuffer frame \<noteq> None \<and>
           prevRenderBufferBinding frame = renderBuffer frame \<and>
           renderBufferBinding frame = renderBuffer frame \<and>
           displayBufferBinding frame = renderBuffer frame)"
    by (auto simp: createRenderBufferResources_def f writeAllFrameDescriptors_def
        writeFrameDescriptors_def resetRenderProgress_def split: option.splits)
  moreover have "\<forall>c i st. EvRecord c (CmdClearColorImage i st) \<in> set (fst (recordFrameCommands fenv True s))
        \<longrightarrow> Some i = m_lastRenderBuffer (snd (snd (recordFrameCommands fenv True s)))"
    using clear_targets_previous [of _ _ _ fenv True s] by (auto simp: trace_targets_current pc)
  ultimately show ?thesis
    using pc by (simp add: currentFrameIndex_def z)
qed

text \<open>The theorem at a ring of one slot whose previous target is still to be cleared.\<close>

theorem single_slot_previous_is_current_witness:
  "numConcurrentFrames demoSingleSlot = 1 \<and> 0 \<le> m_frameIndex demoSingleSlot \<and>
   m_frameIndex demoSingleSlot < int (numConcurrentFrames demoSingleSlot) \<and>
   currentFrameIndex demoSingleSlot = 0 \<and> previousFrameIndex demoSingleSlot = 0 \<and>
   EvRecord 0 (CmdClearColorImage 0 CopyDest)
     \<in> set (fst (recordFrameCommands demoFrameEnv True demoSingleSlot)) \<and>
   m_lastRenderBuffer (snd (snd (recordFrameCommands demoFrameEnv True demoSingleSlot))) = Some 0 \<and>
   fst (createRenderBufferResources demoFrameEnv \<lparr>width = 4, height = 3\<rparr> demoSingleSlot) \<and>
   map prevRenderBufferBinding (m_frameResources (snd
     (createRenderBufferResources demoFrameEnv \<lparr>width = 4, height = 3\<rparr> demoSingleSlot))) = [Some 100] \<and>
   map renderBuffer (m_frameResources (snd
     (createRenderBufferResources demoFrameEnv \<lparr>width = 4, height = 3\<rparr> demoSingleSlot))) = [Some 100]"
proof -
  have a: "numConcurrentFrames demoSingleSlot = 1"
    by (simp add: demoSingleSlot_def numConcurrentFrames_def)
  have b: "0 \<le> m_frameIndex demoSingleSlot"
    by (simp add: demoSingleSlot_def demoRenderer_def)
  have c: "m_frameIndex demoSingleSlot < int (numConcurrentFrames demoSingleSlot)"
    by (simp add: demoSingleSlot_def demoRenderer_def numConcurrentFrames_def)
  have d1: "fst (createRenderBufferResources demoFrameEnv \<lparr>width = 4, height = 3\<rparr> demoSingleSlot)"
    by (simp add: createRenderBufferResources_def demoSingleSlot_def demoFrameEnv_def)
  then have d: "createRenderBufferResources demoFrameEnv \<lparr>width = 4, height = 3\<rparr> demoSingleSlot =
     (True, snd (createRenderBufferResources demoFrameEnv \<lparr>width = 4, height = 3\<rparr> demoSingleSlot))"
    by (cases "createRenderBufferResources demoFrameEnv \<lparr>width = 4, height = 3\<rparr> demoSingleSlot") simp
  have e: "map renderBuffer (m_frameResources (snd
     (createRenderBufferResources demoFrameEnv \<lparr>width = 4, height = 3\<rparr> demoSingleSlot))) = [Some 100]"
    by (simp add: createRenderBufferResources_def demoSingleSlot_def demoFrameEnv_def
        writeAllFrameDescriptors_def writeFrameDescriptors_def resetRenderProgress_def)
  have k: "EvRecord 0 (CmdClearColorImage 0 CopyDest)
     \<in> set (fst (recordFrameCommands demoFrameEnv True demoSingleSlot))"
    by (simp add: recordFrameCommands_def demoSingleSlot_def demoRenderer_def Let_def
        case_prod_beta currentFrameIndex_def previousFrameIndex_def numConcurrentFrames_def)
  have t: "currentFrameIndex demoSingleSlot = 0 \<and> previousFrameIndex demoSingleSlot = currentFrameIndex demoSingleSlot \<and>
     Some 0 = m_lastRenderBuffer (snd (snd (recordFrameCommands demoFrameEnv True demoSingleSlot))) \<and>
     (\<exists>frame. m_frameResources (snd
         (createRenderBufferResources demoFrameEnv \<lparr>width = 4, height = 3\<rparr> demoSingleSlot)) = [frame] \<and>
        prevRenderBufferBinding frame = renderBuffer frame)"
    using d k single_slot_previous_is_current [OF a b c, of demoFrameEnv demoFrameEnv "\<lparr>width = 4, height = 3\<rparr>"]
    by blast
  show ?thesis
    using a b c d1 e k t by auto
qed

section \<open>The dirty set between two builds\<close>













lemma calls_append:
  "calls (cs @ cs') s = (case calls cs s of None \<Rightarrow> None | Some s1 \<Rightarrow> calls cs' s1)"
  by (induction cs arbitrary: s) (simp_all split: option.splits)






section \<open>Reading an image back\<close>



































end
